theory Spec2Isabelle
  imports Main "HOL-Library.AList"
begin

section \<open>FarkleScoring: pure scoring logic\<close>

text \<open>
  Die values are JavaScript numbers that are always positive integers; they are modelled
  as \<open>nat\<close>. A frequency object \<open>{ value: count }\<close> is an association list with one
  entry per distinct key. Only lookups, \<open>Object.values\<close> and \<open>Object.keys\<close> are
  ever applied to it, and every use is independent of the key order.
\<close>

type_synonym freq = "(nat \<times> nat) list"

text \<open>\<open>freq[v] || 0\<close>: a missing key and a zero count both read as 0.\<close>

definition lookup0 :: "freq \<Rightarrow> nat \<Rightarrow> nat" where
  "lookup0 fr v = (case map_of fr v of None \<Rightarrow> 0 | Some c \<Rightarrow> c)"

text \<open>\<open>freq[v] = (freq[v] || 0) + 1\<close>, the body of the loop of \<open>countFrequency\<close>.\<close>

definition bumpCount :: "nat \<Rightarrow> freq \<Rightarrow> freq" where
  "bumpCount v fr = AList.update v (lookup0 fr v + 1) fr"

definition countFrequency :: "nat list \<Rightarrow> freq" where
  "countFrequency dice = fold bumpCount dice []"

text \<open>\<open>Object.values(freq)\<close>\<close>

definition objectValues :: "freq \<Rightarrow> nat list" where
  "objectValues fr = map snd fr"

text \<open>\<open>Object.keys(freq).map(Number)\<close>\<close>

definition objectKeys :: "freq \<Rightarrow> nat list" where
  "objectKeys fr = map fst fr"

text \<open>
  The constant tables. \<open>TRIPLE_BASE\<close> has the keys 1 to 6 and is only read at
  \<open>val\<close> from 1 to 6; \<open>SINGLE_SCORES\<close> has the keys 1 and 5, any other key reads
  as \<open>undefined\<close> (falsy), modelled as \<open>None\<close>.
\<close>

definition TRIPLE_BASE :: "nat \<Rightarrow> nat" where
  "TRIPLE_BASE v =
     (if v = 1 then 1000 else if v = 2 then 200 else if v = 3 then 300
      else if v = 4 then 400 else if v = 5 then 500 else if v = 6 then 600 else 0)"

definition SINGLE_SCORES :: "nat \<Rightarrow> nat option" where
  "SINGLE_SCORES v = (if v = 1 then Some 100 else if v = 5 then Some 50 else None)"

definition STRAIGHT_SCORE :: nat where "STRAIGHT_SCORE = 1000"
definition THREE_PAIRS_SCORE :: nat where "THREE_PAIRS_SCORE = 1500"
definition TWO_TRIPLETS_SCORE :: nat where "TWO_TRIPLETS_SCORE = 2500"

text \<open>\<open>[1, 2, 3, 4, 5, 6]\<close>, also the range of the two \<open>for (val = 1; val <= 6; val++)\<close> loops.\<close>

definition faces16 :: "nat list" where
  "faces16 = [1, 2, 3, 4, 5, 6]"

text \<open>\<open>[1, 2, 3, 4, 5, 6].every(v => freq[v] === 1)\<close>\<close>

definition everyOnce :: "freq \<Rightarrow> bool" where
  "everyOnce fr = list_all (\<lambda>v. map_of fr v = Some 1) faces16"

text \<open>\<open>Object.values(freq).filter(c => c === k).length\<close>\<close>

definition countOf :: "nat \<Rightarrow> freq \<Rightarrow> nat" where
  "countOf k fr = length (filter (\<lambda>c. c = k) (objectValues fr))"

text \<open>One iteration of the loop that extracts 6, 5, 4 or 3 of a kind of \<open>val\<close>.\<close>

definition extractMultiple :: "nat \<Rightarrow> nat \<times> freq \<Rightarrow> nat \<times> freq" where
  "extractMultiple val sr =
     (case sr of (score, remaining) \<Rightarrow>
        let count = lookup0 remaining val in
        if count \<ge> 6 then (score + TRIPLE_BASE val * 8, AList.update val (count - 6) remaining)
        else if count \<ge> 5 then (score + TRIPLE_BASE val * 4, AList.update val (count - 5) remaining)
        else if count \<ge> 4 then (score + TRIPLE_BASE val * 2, AList.update val (count - 4) remaining)
        else if count \<ge> 3 then (score + TRIPLE_BASE val, AList.update val (count - 3) remaining)
        else (score, remaining))"

text \<open>
  The loop over the remaining dice: 1s and 5s score, any other remaining value returns
  \<open>null\<close> at once (\<open>None\<close>); \<open>Some score\<close> is the score when the loop ends.
\<close>

fun scoreSingles :: "nat list \<Rightarrow> nat \<Rightarrow> freq \<Rightarrow> nat option" where
  "scoreSingles [] score remaining = Some score"
| "scoreSingles (val # vals) score remaining =
     (let count = lookup0 remaining val in
      if count > 0 then
        (case SINGLE_SCORES val of
           Some s \<Rightarrow> scoreSingles vals (score + s * count) (AList.update val 0 remaining)
         | None \<Rightarrow> None)
      else scoreSingles vals score remaining)"

text \<open>\<open>scoreSelection(selectedDice)\<close>: \<open>None\<close> is the result \<open>null\<close>.\<close>

definition scoreSelection :: "nat list \<Rightarrow> nat option" where
  "scoreSelection selectedDice =
     (if length selectedDice = 0 then None
      else
        let remaining = countFrequency selectedDice in
        if length selectedDice = 6 \<and> everyOnce remaining then Some STRAIGHT_SCORE
        else if length selectedDice = 6 \<and> countOf 2 remaining = 3 then Some THREE_PAIRS_SCORE
        else if length selectedDice = 6 \<and> countOf 3 remaining = 2 then Some TWO_TRIPLETS_SCORE
        else
          (case fold extractMultiple faces16 (0, remaining) of
             (score, remaining') \<Rightarrow>
               (case scoreSingles faces16 score remaining' of
                  None \<Rightarrow> None
                | Some score' \<Rightarrow> if score' > 0 then Some score' else None)))"

text \<open>\<open>isFarkle(dice)\<close>\<close>

definition isFarkle :: "nat list \<Rightarrow> bool" where
  "isFarkle dice =
     (if length dice = 0 then True
      else if 1 \<in> set dice \<or> 5 \<in> set dice then False
      else
        let fr = countFrequency dice in
        if list_ex (\<lambda>count. count \<ge> 3) (objectValues fr) then False
        else if length dice = 6 \<and> everyOnce fr then False
        else if length dice = 6 \<and> countOf 2 fr = 3 then False
        else True)"

text \<open>
  \<open>detectStraightAttempt(dice)\<close> returns \<open>{ possible, missingValue }\<close>, a pair here;
  \<open>missingValue: null\<close> is \<open>None\<close>. \<open>find\<close> yields the first value of 1 to 6 whose
  count is missing or zero, or \<open>undefined\<close>.
\<close>

definition detectStraightAttempt :: "nat list \<Rightarrow> bool \<times> nat option" where
  "detectStraightAttempt dice =
     (if length dice \<noteq> 6 then (False, None)
      else
        let fr = countFrequency dice; uniqueVals = objectKeys fr in
        if length uniqueVals \<noteq> 5 then (False, None)
        else if \<not> list_all (\<lambda>v. v \<ge> 1 \<and> v \<le> 6) uniqueVals then (False, None)
        else
          let missing = List.find (\<lambda>v. lookup0 fr v = 0) faces16;
              hasDuplicate = list_ex (\<lambda>c. c = 2) (objectValues fr)
          in if missing \<noteq> None \<and> hasDuplicate then (True, missing) else (False, None))"

subsection \<open>The scoring rules in the words of the specification\<close>

text \<open>
  Three-of-a-kind base: 1000 for face 1, otherwise face times 100. A face that occurs
  \<open>count \<ge> 3\<close> times contributes \<open>base v * 2 ^ (count - 3)\<close>; the dice of a face that
  occurs fewer than three times are left over and score 100 each (face 1), 50 each (face 5)
  or make the selection invalid.
\<close>

definition base :: "nat \<Rightarrow> nat" where
  "base v = (if v = 1 then 1000 else v * 100)"

definition nOfAKind :: "nat list \<Rightarrow> nat \<Rightarrow> nat" where
  "nOfAKind ds v = (if count_list ds v \<ge> 3 then base v * 2 ^ (count_list ds v - 3) else 0)"

definition leftover :: "nat list \<Rightarrow> nat \<Rightarrow> nat" where
  "leftover ds v = (if count_list ds v \<ge> 3 then 0 else count_list ds v)"

definition spec_straight :: "nat list \<Rightarrow> bool" where
  "spec_straight ds = (length ds = 6 \<and> list_all (\<lambda>v. count_list ds v = 1) [1, 2, 3, 4, 5, 6])"

definition spec_threePairs :: "nat list \<Rightarrow> bool" where
  "spec_threePairs ds = (length ds = 6 \<and> card {v \<in> set ds. count_list ds v = 2} = 3)"

definition spec_twoTriplets :: "nat list \<Rightarrow> bool" where
  "spec_twoTriplets ds = (length ds = 6 \<and> card {v \<in> set ds. count_list ds v = 3} = 2)"

definition spec_total :: "nat list \<Rightarrow> nat" where
  "spec_total ds = (\<Sum>v \<in> set ds. nOfAKind ds v) + 100 * leftover ds 1 + 50 * leftover ds 5"

definition spec_scoreSelection :: "nat list \<Rightarrow> nat option" where
  "spec_scoreSelection ds =
     (if ds = [] then None
      else if spec_straight ds then Some 1000
      else if spec_threePairs ds then Some 1500
      else if spec_twoTriplets ds then Some 2500
      else if list_ex (\<lambda>v. v \<noteq> 1 \<and> v \<noteq> 5 \<and> leftover ds v > 0) ds then None
      else if spec_total ds = 0 then None
      else Some (spec_total ds))"

text \<open>
  A roll is a bust when none of these holds: a 1 or a 5 is present, a face occurs three or
  more times, the dice are a straight, the dice are three pairs.
\<close>

definition spec_isFarkle :: "nat list \<Rightarrow> bool" where
  "spec_isFarkle ds =
     (\<not> (1 \<in> set ds \<or> 5 \<in> set ds \<or> (\<exists>v \<in> set ds. count_list ds v \<ge> 3) \<or>
         spec_straight ds \<or> spec_threePairs ds))"

text \<open>
  The straight attempt is open for six dice that show exactly five distinct faces, all from
  1 to 6, one face twice and every other face once.
\<close>

definition spec_straightAttempt :: "nat list \<Rightarrow> bool" where
  "spec_straightAttempt ds =
     (length ds = 6 \<and> card (set ds) = 5 \<and> set ds \<subseteq> {1..6} \<and>
      (\<exists>d \<in> set ds. count_list ds d = 2 \<and> (\<forall>v \<in> set ds. v \<noteq> d \<longrightarrow> count_list ds v = 1)))"

subsection \<open>Quantities used to state what the two scoring loops compute\<close>

text \<open>
  The points the first loop adds for a value that has \<open>count\<close> dice, the number of dice
  of that value it leaves, and the points the second loop adds for \<open>count\<close> remaining
  dice of a value.
\<close>

definition multScore :: "nat \<Rightarrow> nat \<Rightarrow> nat" where
  "multScore val count =
     (if count \<ge> 6 then TRIPLE_BASE val * 8 else if count \<ge> 5 then TRIPLE_BASE val * 4
      else if count \<ge> 4 then TRIPLE_BASE val * 2 else if count \<ge> 3 then TRIPLE_BASE val else 0)"

definition afterMult :: "nat \<Rightarrow> nat" where
  "afterMult count =
     (if count \<ge> 6 then count - 6 else if count \<ge> 5 then count - 5
      else if count \<ge> 4 then count - 4 else if count \<ge> 3 then count - 3 else count)"

definition singleScore :: "nat \<Rightarrow> nat \<Rightarrow> nat" where
  "singleScore val count = (case SINGLE_SCORES val of Some s \<Rightarrow> s * count | None \<Rightarrow> 0)"

section \<open>DiceEngine\<close>

text \<open>
  The snapshot produced by \<open>getState\<close> has the four fields \<open>values\<close>, \<open>held\<close>,
  \<open>rollsLeft\<close> and \<open>hasRolled\<close>; the engine has them too, with its configuration and
  the \<open>isRolling\<close> flag. \<open>rollsLeft\<close> is an \<open>int\<close>: \<open>roll\<close> tests \<open>rollsLeft <= 0\<close>
  and \<open>toggleHold\<close> tests \<open>rollsLeft === 0\<close>. The listeners registered with \<open>on\<close> are
  the game's handlers; \<open>emit\<close> is modelled where the game calls them.
\<close>

record DiceState =
  values_list :: "nat list"
  held :: "bool list"
  rollsLeft :: int
  hasRolled :: bool

record DiceEngine = DiceState +
  count :: nat
  sides :: nat
  maxRolls :: int
  isRolling :: bool

text \<open>\<open>new DiceEngine({ count, sides, maxRolls })\<close>\<close>

definition newDiceEngine :: "nat \<Rightarrow> nat \<Rightarrow> int \<Rightarrow> DiceEngine" where
  "newDiceEngine c s m =
     \<lparr>values_list = replicate c 1, held = replicate c False, rollsLeft = m, hasRolled = False,
      count = c, sides = s, maxRolls = m, isRolling = False\<rparr>"

text \<open>
  \<open>this.held[i]\<close> and \<open>this.values[i]\<close>: an index past the end reads \<open>undefined\<close>,
  which is falsy for a flag; as a die value it is modelled by 0, which is no face.
\<close>

definition heldAt :: "bool list \<Rightarrow> nat \<Rightarrow> bool" where
  "heldAt h i = (i < length h \<and> h ! i)"

definition valueAt :: "nat list \<Rightarrow> nat \<Rightarrow> nat" where
  "valueAt vs i = (if i < length vs then vs ! i else 0)"

text \<open>
  \<open>roll()\<close>. The argument \<open>rnd\<close> supplies the integer drawn for each index:
  \<open>Math.floor(Math.random() * sides)\<close> is \<open>rnd i mod sides\<close>. The result is the
  returned flag and the engine. The arrays of an engine have \<open>count\<close> elements
  (constructor, \<open>reset\<close>, \<open>_startTurn\<close>, snapshots of such an engine), so every
  write of \<open>roll\<close> and \<open>toggleHold\<close> is in range; JavaScript would grow a shorter
  array, which \<open>xs[i := v]\<close> does not.
\<close>

definition roll :: "(nat \<Rightarrow> nat) \<Rightarrow> DiceEngine \<Rightarrow> bool \<times> DiceEngine" where
  "roll rnd e =
     (if rollsLeft e \<le> 0 \<or> isRolling e then (False, e)
      else
        let e1 = e\<lparr>isRolling := True, hasRolled := True, rollsLeft := rollsLeft e - 1\<rparr>
        in (True,
            e1\<lparr>values_list :=
                 fold (\<lambda>i vs. if \<not> heldAt (held e1) i then vs[i := rnd i mod sides e1 + 1] else vs)
                      [0..<count e1] (values_list e1)\<rparr>))"

text \<open>\<open>finishRoll()\<close>, the engine's part; the \<open>roll-end\<close> handlers follow in the game.\<close>

definition finishRoll :: "DiceEngine \<Rightarrow> DiceEngine" where
  "finishRoll e = e\<lparr>isRolling := False\<rparr>"

definition toggleHold :: "nat \<Rightarrow> DiceEngine \<Rightarrow> bool \<times> DiceEngine" where
  "toggleHold index e =
     (if \<not> hasRolled e \<or> isRolling e \<or> rollsLeft e = 0 then (False, e)
      else if index \<ge> count e then (False, e)
      else (True, e\<lparr>held := (held e)[index := \<not> heldAt (held e) index]\<rparr>))"

definition reset :: "DiceEngine \<Rightarrow> DiceEngine" where
  "reset e =
     e\<lparr>values_list := replicate (count e) 1, held := replicate (count e) False,
       rollsLeft := maxRolls e, hasRolled := False, isRolling := False\<rparr>"

definition canRoll :: "DiceEngine \<Rightarrow> bool" where
  "canRoll e = (rollsLeft e > 0 \<and> \<not> isRolling e)"

definition getValues :: "DiceEngine \<Rightarrow> nat list" where
  "getValues e = values_list e"

definition getState :: "DiceEngine \<Rightarrow> DiceState" where
  "getState e =
     \<lparr>values_list = values_list e, held = held e, rollsLeft = rollsLeft e, hasRolled = hasRolled e\<rparr>"

text \<open>\<open>restoreState(state)\<close>: a missing snapshot (\<open>!state\<close>) is \<open>None\<close>.\<close>

definition restoreState :: "DiceState option \<Rightarrow> DiceEngine \<Rightarrow> DiceEngine" where
  "restoreState state e =
     (case state of
        None \<Rightarrow> e
      | Some st \<Rightarrow>
          e\<lparr>values_list := values_list st, held := held st, rollsLeft := rollsLeft st,
            hasRolled := hasRolled st, isRolling := False\<rparr>)"

section \<open>FarkleGame: turn state machine and match controller\<close>

text \<open>
  A JavaScript \<open>Set\<close> of die or player indices iterates in insertion order and holds no
  duplicates; it is a list without duplicates here, \<open>add\<close> appending a new element.
\<close>

definition setAdd :: "nat \<Rightarrow> nat list \<Rightarrow> nat list" where
  "setAdd x xs = (if x \<in> set xs then xs else xs @ [x])"

definition setDelete :: "nat \<Rightarrow> nat list \<Rightarrow> nat list" where
  "setDelete x xs = removeAll x xs"

text \<open>\<open>new Set(array)\<close>\<close>

definition newSet :: "nat list \<Rightarrow> nat list" where
  "newSet xs = fold setAdd xs []"

definition TARGET_SCORE :: nat where "TARGET_SCORE = 10000"
definition MIN_SCORE_3RD_ROLL :: nat where "MIN_SCORE_3RD_ROLL = 350"

record Player =
  player_id :: nat
  name :: string
  color :: string
  totalScore :: nat

datatype TurnState = Idle | Rolling | Selecting | Confirmed | Farkle | StraightAttempt

text \<open>
  A timer set with \<open>setTimeout\<close> and not yet fired, named after what its callback does:
  the timers of \<open>_handleFarkle\<close> and \<open>_handleForcedFarkle\<close> call \<open>_nextPlayer()\<close>,
  the timer of \<open>_handleHotDice\<close> resets the engine and enters \<open>confirmed\<close>.
\<close>

datatype Timer = NextPlayerTimer | HotDiceTimer

text \<open>
  The fields of the controller that the turn and the match depend on. \<open>matchResult\<close>
  records the effect of \<open>_endGame\<close>, which is outside the object (history entry, profile
  update, winner dialog): \<open>None\<close> until \<open>_endGame\<close> runs, then the list \<open>winners\<close>.
  \<open>timers\<close> holds the pending timers of the controller in the order in which they were
  set. The user interface and the wall clock (\<open>gameStartTime\<close>) are left out.
\<close>

record FarkleGame =
  gameId :: string
  players :: "Player list"
  currentPlayerIndex :: nat
  turnScore :: nat
  rollCount :: nat
  setAsideDice :: "nat list"
  selectedDice :: "nat list"
  turnState :: TurnState
  straightAttemptData :: "(bool \<times> nat option) option"
  finalRound :: bool
  finalRoundTriggerPlayer :: int
  playersHadFinalTurn :: "nat list"
  diceEngine :: DiceEngine
  matchResult :: "Player list option"
  timers :: "Timer list"

definition onDiceClick :: "nat \<Rightarrow> FarkleGame \<Rightarrow> FarkleGame" where
  "onDiceClick index g =
     (if turnState g \<noteq> Selecting then g
      else if index \<in> set (setAsideDice g) then g
      else if index \<in> set (selectedDice g)
        then g\<lparr>selectedDice := setDelete index (selectedDice g)\<rparr>
        else g\<lparr>selectedDice := setAdd index (selectedDice g)\<rparr>)"

definition startTurn :: "FarkleGame \<Rightarrow> FarkleGame" where
  "startTurn g =
     g\<lparr>turnScore := 0, rollCount := 0, setAsideDice := [], selectedDice := [],
       turnState := Idle, straightAttemptData := None,
       diceEngine := (diceEngine g)\<lparr>values_list := replicate 6 1, held := replicate 6 False,
                                     rollsLeft := 1, hasRolled := False, isRolling := False\<rparr>\<rparr>"

text \<open>\<open>_rollDice()\<close>; the \<open>roll-start\<close> handler only updates the display.\<close>

definition rollDice :: "(nat \<Rightarrow> nat) \<Rightarrow> FarkleGame \<Rightarrow> FarkleGame" where
  "rollDice rnd g =
     (if isRolling (diceEngine g) then g
      else if turnState g \<noteq> Idle \<and> turnState g \<noteq> Confirmed then g
      else
        let e1 = (diceEngine g)\<lparr>rollsLeft := 1,
                   held := fold (\<lambda>i h. h[i := i \<in> set (setAsideDice g)]) [0..<6] (held (diceEngine g))\<rparr>
        in g\<lparr>selectedDice := [], rollCount := rollCount g + 1, turnState := Rolling,
             diceEngine := snd (roll rnd e1)\<rparr>)"

text \<open>
  \<open>_handleFarkle()\<close> and \<open>_handleForcedFarkle()\<close>: the turn state and the turn score
  change at once, and a timer is set whose callback calls \<open>_nextPlayer()\<close>.
\<close>

definition handleFarkle :: "FarkleGame \<Rightarrow> FarkleGame" where
  "handleFarkle g =
     g\<lparr>turnState := Farkle, turnScore := 0, timers := timers g @ [NextPlayerTimer]\<rparr>"

definition handleForcedFarkle :: "FarkleGame \<Rightarrow> FarkleGame" where
  "handleForcedFarkle g =
     g\<lparr>turnState := Farkle, turnScore := 0, timers := timers g @ [NextPlayerTimer]\<rparr>"

text \<open>
  \<open>_handleHotDice()\<close>: the set-aside set is emptied at once and a timer is set; the
  callback of the timer (\<open>hotDiceTimeout\<close>) resets the engine and enters \<open>confirmed\<close>.
  The turn state is not changed before the timer fires.
\<close>

definition handleHotDice :: "FarkleGame \<Rightarrow> FarkleGame" where
  "handleHotDice g = g\<lparr>setAsideDice := [], timers := timers g @ [HotDiceTimer]\<rparr>"

definition hotDiceTimeout :: "FarkleGame \<Rightarrow> FarkleGame" where
  "hotDiceTimeout g =
     g\<lparr>diceEngine := (diceEngine g)\<lparr>values_list := replicate 6 1, held := replicate 6 False,
                                     rollsLeft := 1, hasRolled := False\<rparr>,
       turnState := Confirmed\<rparr>"

text \<open>The dice that are not set aside, by index and by value, as \<open>_onRollEnd\<close> collects them.\<close>

definition availableIndices :: "FarkleGame \<Rightarrow> nat list" where
  "availableIndices g = filter (\<lambda>i. i \<notin> set (setAsideDice g)) [0..<6]"

definition availableDice :: "FarkleGame \<Rightarrow> nat list" where
  "availableDice g = map (valueAt (values_list (diceEngine g))) (availableIndices g)"

text \<open>\<open>_onRollEnd()\<close>, the handler of \<open>roll-end\<close>.\<close>

definition onRollEnd :: "FarkleGame \<Rightarrow> FarkleGame" where
  "onRollEnd g =
     (let g1 = g\<lparr>diceEngine := (diceEngine g)\<lparr>rollsLeft := 0\<rparr>\<rparr>;
          avail = availableDice g1
      in if isFarkle avail then handleFarkle g1
         else
           let sa = (if length avail = 6
                     then (let d = detectStraightAttempt avail in if fst d then Some d else None)
                     else None)
           in g1\<lparr>straightAttemptData := sa, turnState := Selecting\<rparr>)"

text \<open>
  The renderer's call of \<open>finishRoll()\<close> when the animation ends, with the handler
  \<open>_onRollEnd\<close> that the constructor registers as the listener of \<open>roll-end\<close>. The
  roll of a straight attempt has a second listener (\<open>straightRollFinished\<close> below).
\<close>

definition rollFinished :: "FarkleGame \<Rightarrow> FarkleGame" where
  "rollFinished g = onRollEnd (g\<lparr>diceEngine := finishRoll (diceEngine g)\<rparr>)"

text \<open>The values of the selected dice, in the order of the selection.\<close>

definition selectedValues :: "FarkleGame \<Rightarrow> nat list" where
  "selectedValues g = map (valueAt (values_list (diceEngine g))) (selectedDice g)"

definition confirmSelection :: "FarkleGame \<Rightarrow> FarkleGame" where
  "confirmSelection g =
     (if turnState g \<noteq> Selecting then g
      else if length (selectedDice g) = 0 then g
      else
        (case scoreSelection (selectedValues g) of
           None \<Rightarrow> g
         | Some score \<Rightarrow>
             let g1 = g\<lparr>turnScore := turnScore g + score,
                        setAsideDice := fold setAdd (selectedDice g) (setAsideDice g),
                        selectedDice := []\<rparr>
             in if length (setAsideDice g1) \<ge> 6 then handleHotDice g1
                else if rollCount g1 \<ge> 3 \<and> turnScore g1 < MIN_SCORE_3RD_ROLL
                  then handleForcedFarkle g1
                else g1\<lparr>turnState := Confirmed\<rparr>))"

text \<open>
  \<open>_endGame()\<close>: the loop that collects the winners, starting from \<open>maxScore = -1\<close>.
\<close>

definition winnerStep :: "Player \<Rightarrow> int \<times> Player list \<Rightarrow> int \<times> Player list" where
  "winnerStep p mw =
     (case mw of (maxScore, winners) \<Rightarrow>
        if int (totalScore p) > maxScore then (int (totalScore p), [p])
        else if int (totalScore p) = maxScore then (maxScore, winners @ [p])
        else (maxScore, winners))"

definition endGame :: "FarkleGame \<Rightarrow> FarkleGame" where
  "endGame g = g\<lparr>matchResult := Some (snd (fold winnerStep (players g) (-1, [])))\<rparr>"

text \<open>
  \<open>this.players.every((_, i) => i === trigger || playersHadFinalTurn.has(i))\<close>
\<close>

definition allDone :: "FarkleGame \<Rightarrow> bool" where
  "allDone g =
     list_all (\<lambda>i. int i = finalRoundTriggerPlayer g \<or> i \<in> set (playersHadFinalTurn g))
       [0..<length (players g)]"

text \<open>
  \<open>_nextPlayer()\<close>. A game has at least one player, so the modulus is positive.
\<close>

definition nextPlayer :: "FarkleGame \<Rightarrow> FarkleGame" where
  "nextPlayer g =
     (let g1 = (if finalRound g
                then g\<lparr>playersHadFinalTurn := setAdd (currentPlayerIndex g) (playersHadFinalTurn g)\<rparr>
                else g)
      in if finalRound g1 \<and> allDone g1 then endGame g1
         else
           let g2 = g1\<lparr>currentPlayerIndex := (currentPlayerIndex g1 + 1) mod length (players g1)\<rparr>
           in if finalRound g2 \<and> int (currentPlayerIndex g2) = finalRoundTriggerPlayer g2
              then
                let g3 = g2\<lparr>playersHadFinalTurn := setAdd (currentPlayerIndex g2) (playersHadFinalTurn g2),
                           currentPlayerIndex := (currentPlayerIndex g2 + 1) mod length (players g2)\<rparr>
                in if allDone g3 then endGame g3 else startTurn g3
              else startTurn g2)"

text \<open>
  \<open>_bank()\<close>. The current player index is always an index of \<open>players\<close>.
\<close>

definition bank :: "FarkleGame \<Rightarrow> FarkleGame" where
  "bank g =
     (if turnState g \<noteq> Confirmed then g
      else
        let i = currentPlayerIndex g;
            p = (players g ! i)\<lparr>totalScore := totalScore (players g ! i) + turnScore g\<rparr>;
            g1 = g\<lparr>players := (players g)[i := p]\<rparr>;
            g2 = (if totalScore p \<ge> TARGET_SCORE \<and> \<not> finalRound g1
                  then g1\<lparr>finalRound := True, finalRoundTriggerPlayer := int i\<rparr>
                  else g1)
        in nextPlayer g2)"

text \<open>The callback of the timer set by \<open>_handleFarkle\<close> and \<open>_handleForcedFarkle\<close>.\<close>

definition farkleTimeout :: "FarkleGame \<Rightarrow> FarkleGame" where
  "farkleTimeout g = nextPlayer g"

text \<open>
  The pending timer number \<open>i\<close> fires: it is no longer pending and its callback runs.
  Which of several pending timers fires first is decided by their delays and the time at
  which each was set; two timers of the same delay set by the same event fire in the order
  in which they were set.
\<close>

definition fireTimer :: "nat \<Rightarrow> FarkleGame \<Rightarrow> FarkleGame" where
  "fireTimer i g =
     (if i \<ge> length (timers g) then g
      else
        let g1 = g\<lparr>timers := take i (timers g) @ drop (Suc i) (timers g)\<rparr>
        in (case timers g ! i of
              NextPlayerTimer \<Rightarrow> farkleTimeout g1
            | HotDiceTimer \<Rightarrow> hotDiceTimeout g1))"

subsection \<open>The straight attempt\<close>

text \<open>
  What the function \<open>straightHandler\<close> created by \<open>_attemptStraight\<close> keeps of its
  surroundings: the index of the die that is rolled again (\<open>-1\<close> when no value occurs
  twice) and the missing value.
\<close>

record StraightClosure =
  keptDupIdx :: int
  missingVal :: "nat option"

text \<open>\<open>values[i]\<close> for an index that may be \<open>-1\<close> or past the end: \<open>undefined\<close> is \<open>None\<close>.\<close>

definition valueOpt :: "nat list \<Rightarrow> int \<Rightarrow> nat option" where
  "valueOpt vs i = (if 0 \<le> i \<and> nat i < length vs then Some (vs ! nat i) else None)"

text \<open>
  One iteration of the loop of \<open>_attemptStraight\<close> that keeps the first die showing the
  duplicated value and sets every other die aside.
\<close>

definition keepStep :: "nat list \<Rightarrow> nat option \<Rightarrow> nat \<Rightarrow> int \<times> nat list \<Rightarrow> int \<times> nat list" where
  "keepStep vals dupVal i ks =
     (case ks of (kept, aside) \<Rightarrow>
        if valueOpt vals (int i) = dupVal \<and> kept = -1 then (int i, aside)
        else (kept, setAdd i aside))"

text \<open>
  \<open>_attemptStraight()\<close> up to and including \<open>this.diceEngine.roll()\<close>. The result is the
  controller and, when the guard did not return, the \<open>straightHandler\<close> that was added to
  the listeners of \<open>roll-end\<close> with \<open>on\<close>; the listener \<open>_onRollEnd\<close> that the
  constructor registered stays registered. The keys of an object that are integers are
  enumerated in ascending order, which \<open>find\<close> depends on.
\<close>

definition attemptStraight :: "(nat \<Rightarrow> nat) \<Rightarrow> FarkleGame \<Rightarrow> FarkleGame \<times> StraightClosure option" where
  "attemptStraight rnd g =
     (case straightAttemptData g of
        None \<Rightarrow> (g, None)
      | Some sa \<Rightarrow>
          if turnState g \<noteq> Selecting then (g, None)
          else
            let vals = getValues (diceEngine g);
                fr = countFrequency vals;
                dupVal = List.find (\<lambda>v. lookup0 fr v = 2) (sort (objectKeys fr))
            in (case fold (keepStep vals dupVal) [0..<6] (-1, setAsideDice g) of
                  (kept, aside) \<Rightarrow>
                    let e1 = (diceEngine g)\<lparr>
                               held := fold (\<lambda>i h. h[i := i \<in> set aside]) [0..<6] (replicate 6 False),
                               rollsLeft := 1\<rparr>
                    in (g\<lparr>turnState := StraightAttempt, setAsideDice := aside, selectedDice := [],
                          rollCount := rollCount g + 1, diceEngine := snd (roll rnd e1)\<rparr>,
                        Some \<lparr>keptDupIdx = kept, missingVal = snd sa\<rparr>)))"

text \<open>
  The body of \<open>straightHandler\<close>. \<open>newVal === missingVal\<close> is false when \<open>newVal\<close> is
  \<open>undefined\<close>.
\<close>

definition straightHandler :: "StraightClosure \<Rightarrow> FarkleGame \<Rightarrow> FarkleGame" where
  "straightHandler h g =
     (let g1 = g\<lparr>diceEngine := (diceEngine g)\<lparr>rollsLeft := 0\<rparr>\<rparr>;
          newVal = valueOpt (values_list (diceEngine g1)) (keptDupIdx h)
      in if newVal \<noteq> None \<and> newVal = missingVal h
         then handleHotDice (g1\<lparr>turnScore := turnScore g1 + STRAIGHT_SCORE,
                                setAsideDice := newSet [0, 1, 2, 3, 4, 5],
                                straightAttemptData := None\<rparr>)
         else handleFarkle (g1\<lparr>straightAttemptData := None\<rparr>))"

text \<open>
  The end of the roll of a straight attempt: \<open>finishRoll()\<close> emits \<open>roll-end\<close> to the
  listeners in the order of their registration, first \<open>_onRollEnd\<close>, then
  \<open>straightHandler\<close>, which removes itself.
\<close>

definition straightRollFinished :: "StraightClosure \<Rightarrow> FarkleGame \<Rightarrow> FarkleGame" where
  "straightRollFinished h g = straightHandler h (rollFinished g)"

text \<open>The button of the straight attempt pressed, and the roll animation run to its end.\<close>

definition straightAttemptRoll :: "(nat \<Rightarrow> nat) \<Rightarrow> FarkleGame \<Rightarrow> FarkleGame" where
  "straightAttemptRoll rnd g =
     (case attemptStraight rnd g of
        (g1, None) \<Rightarrow> g1
      | (g1, Some h) \<Rightarrow> straightRollFinished h g1)"

subsection \<open>Save and restore\<close>

text \<open>
  The record handed to the storage by \<open>_autoSave\<close>. \<open>_restoreState\<close> reads most fields
  with a default (\<open>state.turnScore || 0\<close>), so a field may be absent: \<open>None\<close>.
\<close>

record PlayerSnapshot =
  s_name :: string
  s_color :: string
  s_totalScore :: "nat option"

record Snapshot =
  s_gameId :: string
  s_players :: "PlayerSnapshot list"
  s_currentPlayerIndex :: nat
  s_turnScore :: "nat option"
  s_rollCount :: "nat option"
  s_setAsideDice :: "nat list option"
  s_selectedDice :: "nat list option"
  s_turnState :: "TurnState option"
  s_finalRound :: "bool option"
  s_finalRoundTriggerPlayer :: "int option"
  s_playersHadFinalTurn :: "nat list option"
  s_dice :: "DiceState option"

definition autoSave :: "FarkleGame \<Rightarrow> Snapshot" where
  "autoSave g =
     \<lparr>s_gameId = gameId g,
      s_players = map (\<lambda>p. \<lparr>s_name = name p, s_color = color p,
                             s_totalScore = Some (totalScore p)\<rparr>) (players g),
      s_currentPlayerIndex = currentPlayerIndex g,
      s_turnScore = Some (turnScore g),
      s_rollCount = Some (rollCount g),
      s_setAsideDice = Some (setAsideDice g),
      s_selectedDice = Some (selectedDice g),
      s_turnState = Some (turnState g),
      s_finalRound = Some (finalRound g),
      s_finalRoundTriggerPlayer = Some (finalRoundTriggerPlayer g),
      s_playersHadFinalTurn = Some (playersHadFinalTurn g),
      s_dice = Some (getState (diceEngine g))\<rparr>"

text \<open>\<open>x || d\<close> on a field that may be absent, and on a number that may be 0.\<close>

definition orElse :: "'a option \<Rightarrow> 'a \<Rightarrow> 'a" where
  "orElse x d = (case x of None \<Rightarrow> d | Some v \<Rightarrow> v)"

text \<open>
  \<open>_restoreState(state)\<close> of the game, applied to the controller \<open>g\<close> that the
  constructor has just built.
\<close>

definition gameRestoreState :: "Snapshot \<Rightarrow> FarkleGame \<Rightarrow> FarkleGame" where
  "gameRestoreState state g =
     g\<lparr>players := map (\<lambda>(i, p). \<lparr>player_id = i, name = s_name p, color = s_color p,
                                   totalScore = orElse (s_totalScore p) 0\<rparr>)
                      (enumerate 0 (s_players state)),
       currentPlayerIndex := s_currentPlayerIndex state,
       turnScore := orElse (s_turnScore state) 0,
       rollCount := orElse (s_rollCount state) 0,
       setAsideDice := newSet (orElse (s_setAsideDice state) []),
       selectedDice := newSet (orElse (s_selectedDice state) []),
       turnState := orElse (s_turnState state) Idle,
       finalRound := orElse (s_finalRound state) False,
       finalRoundTriggerPlayer := orElse (s_finalRoundTriggerPlayer state) (-1),
       playersHadFinalTurn := newSet (orElse (s_playersHadFinalTurn state) []),
       diceEngine := (restoreState (s_dice state) (diceEngine g))\<lparr>rollsLeft := 0\<rparr>\<rparr>"

text \<open>The controller as the constructor leaves it before restoring or starting a turn.\<close>

definition newFarkleGame :: "string \<Rightarrow> Player list \<Rightarrow> FarkleGame" where
  "newFarkleGame gid ps =
     \<lparr>gameId = gid, players = ps, currentPlayerIndex = 0, turnScore = 0, rollCount = 0,
      setAsideDice = [], selectedDice = [], turnState = Idle, straightAttemptData = None,
      finalRound = False, finalRoundTriggerPlayer = -1, playersHadFinalTurn = [],
      diceEngine = newDiceEngine 6 6 999, matchResult = None, timers = []\<rparr>"

subsection \<open>Seats and winners of the final round\<close>

text \<open>The player on turn, as a number counted from the player who triggered the final round.\<close>

definition seatAfter :: "nat \<Rightarrow> nat \<Rightarrow> nat \<Rightarrow> nat" where
  "seatAfter n t k = (t + k) mod n"

text \<open>The players whose total is the greatest total, in the order of the player list.\<close>

definition topScorers :: "Player list \<Rightarrow> Player list" where
  "topScorers ps = filter (\<lambda>p. \<forall>q \<in> set ps. totalScore q \<le> totalScore p) ps"

text \<open>
  The state of the match during the final round triggered by player \<open>t\<close> of \<open>n\<close>: the
  player on turn sits \<open>k\<close> seats after the trigger, and the players who have had their
  final turn are the trigger and the first \<open>k - 1\<close> players after it.
\<close>

definition finalRoundInv :: "nat \<Rightarrow> nat \<Rightarrow> nat \<Rightarrow> FarkleGame \<Rightarrow> bool" where
  "finalRoundInv t n k g =
     (finalRound g \<and> finalRoundTriggerPlayer g = int t \<and> length (players g) = n \<and>
      matchResult g = None \<and> currentPlayerIndex g = seatAfter n t k \<and>
      set (playersHadFinalTurn g) = seatAfter n t ` {..<k})"

section \<open>Yahtzee: category scoring and category selection\<close>

text \<open>
  Category ids are the strings of the source. The score sheet \<open>player.scores\<close> is an
  object from category id to score, a map here; \<open>scores[id] || 0\<close> is \<open>orElse\<close>.
  The dice have six sides, so every value is one digit and the joined strings of
  \<open>smallStraight\<close> and \<open>largeStraight\<close> are the lists of the sorted values.
\<close>

datatype CategoryType = Upper | Bonus | Lower

record Category =
  cat_id :: string
  cat_name :: string
  cat_type :: CategoryType
  calc :: "nat list \<Rightarrow> nat"

record YahtzeePlayer =
  yp_id :: nat
  yp_name :: string
  yp_color :: string
  scores :: "string \<Rightarrow> nat option"
  yahtzees :: nat

definition countDice :: "nat list \<Rightarrow> nat \<Rightarrow> nat" where
  "countDice dice val = sum_list (filter (\<lambda>d. d = val) dice)"

definition threeOfAKind :: "nat list \<Rightarrow> nat" where
  "threeOfAKind d =
     (if list_ex (\<lambda>c. c \<ge> 3) (objectValues (countFrequency d)) then sum_list d else 0)"

definition fourOfAKind :: "nat list \<Rightarrow> nat" where
  "fourOfAKind d =
     (if list_ex (\<lambda>c. c \<ge> 4) (objectValues (countFrequency d)) then sum_list d else 0)"

definition fullHouse :: "nat list \<Rightarrow> nat" where
  "fullHouse d =
     (let vals = objectValues (countFrequency d)
      in if 3 \<in> set vals \<and> 2 \<in> set vals then 25 else 0)"

text \<open>\<open>str.includes(s)\<close> on strings of one-digit values.\<close>

fun includesSeq :: "nat list \<Rightarrow> nat list \<Rightarrow> bool" where
  "includesSeq str [] = (str = [])"
| "includesSeq str (x # xs) = (take (length str) (x # xs) = str \<or> includesSeq str xs)"

definition smallStraight :: "nat list \<Rightarrow> nat" where
  "smallStraight d =
     (let unique = sort (remdups d)
      in if list_ex (\<lambda>s. includesSeq s unique) [[1, 2, 3, 4], [2, 3, 4, 5], [3, 4, 5, 6]]
         then 30 else 0)"

definition largeStraight :: "nat list \<Rightarrow> nat" where
  "largeStraight d =
     (let sorted = sort d
      in if sorted = [1, 2, 3, 4, 5] \<or> sorted = [2, 3, 4, 5, 6] then 40 else 0)"

definition yahtzeeCheck :: "nat list \<Rightarrow> nat" where
  "yahtzeeCheck d = (if list_all (\<lambda>v. v = hd d) d then 50 else 0)"

definition chance :: "nat list \<Rightarrow> nat" where
  "chance d = sum_list d"

definition categories :: "Category list" where
  "categories =
     [\<lparr>cat_id = ''ones'', cat_name = ''Uno (1)'', cat_type = Upper, calc = (\<lambda>d. countDice d 1)\<rparr>,
      \<lparr>cat_id = ''twos'', cat_name = ''Due (2)'', cat_type = Upper, calc = (\<lambda>d. countDice d 2)\<rparr>,
      \<lparr>cat_id = ''threes'', cat_name = ''Tre (3)'', cat_type = Upper, calc = (\<lambda>d. countDice d 3)\<rparr>,
      \<lparr>cat_id = ''fours'', cat_name = ''Quattro (4)'', cat_type = Upper, calc = (\<lambda>d. countDice d 4)\<rparr>,
      \<lparr>cat_id = ''fives'', cat_name = ''Cinque (5)'', cat_type = Upper, calc = (\<lambda>d. countDice d 5)\<rparr>,
      \<lparr>cat_id = ''sixes'', cat_name = ''Sei (6)'', cat_type = Upper, calc = (\<lambda>d. countDice d 6)\<rparr>,
      \<lparr>cat_id = ''bonus'', cat_name = ''Bonus'', cat_type = Bonus, calc = (\<lambda>d. 0)\<rparr>,
      \<lparr>cat_id = ''threeKind'', cat_name = ''Tre Uguali'', cat_type = Lower, calc = threeOfAKind\<rparr>,
      \<lparr>cat_id = ''fourKind'', cat_name = ''Quattro Uguali'', cat_type = Lower, calc = fourOfAKind\<rparr>,
      \<lparr>cat_id = ''fullHouse'', cat_name = ''Full House'', cat_type = Lower, calc = fullHouse\<rparr>,
      \<lparr>cat_id = ''smallStraight'', cat_name = ''Scala Piccola'', cat_type = Lower, calc = smallStraight\<rparr>,
      \<lparr>cat_id = ''largeStraight'', cat_name = ''Scala Grande'', cat_type = Lower, calc = largeStraight\<rparr>,
      \<lparr>cat_id = ''yahtzee'', cat_name = ''Yatzee'', cat_type = Lower, calc = yahtzeeCheck\<rparr>,
      \<lparr>cat_id = ''chance'', cat_name = ''Chance'', cat_type = Lower, calc = chance\<rparr>]"

definition calculateUpperSum :: "YahtzeePlayer \<Rightarrow> nat" where
  "calculateUpperSum player =
     fold (\<lambda>i sum. sum + orElse (scores player i) 0)
       [''ones'', ''twos'', ''threes'', ''fours'', ''fives'', ''sixes''] 0"

definition calculateTotal :: "YahtzeePlayer \<Rightarrow> Category list \<Rightarrow> nat" where
  "calculateTotal player cats =
     (let total = calculateUpperSum player;
          total = (if total \<ge> 63 then total + 35 else total);
          total = fold (\<lambda>c t. t + orElse (scores player (cat_id c)) 0)
                    (filter (\<lambda>c. cat_type c = Lower) cats) total
      in if yahtzees player > 1 then total + (yahtzees player - 1) * 100 else total)"

record YahtzeeGame =
  y_players :: "YahtzeePlayer list"
  y_currentPlayerIndex :: nat
  y_diceEngine :: DiceEngine
  y_matchResult :: "YahtzeePlayer list option"

definition isPlayerFinished :: "YahtzeePlayer \<Rightarrow> bool" where
  "isPlayerFinished p =
     list_all (\<lambda>c. scores p (cat_id c) \<noteq> None) (filter (\<lambda>c. cat_type c \<noteq> Bonus) categories)"

text \<open>
  \<open>_startTurn()\<close> resets the engine and, when the player on turn has filled every
  category, passes on through \<open>_nextPlayer()\<close>, which calls \<open>_startTurn()\<close> again. The
  recursion ends at the first unfinished player; \<open>None\<close> stands for a run that never ends.
\<close>

partial_function (option) yahtzeeStartTurn :: "YahtzeeGame \<Rightarrow> YahtzeeGame option" where
  "yahtzeeStartTurn g =
     (let g1 = g\<lparr>y_diceEngine := reset (y_diceEngine g)\<rparr>
      in if isPlayerFinished (y_players g1 ! y_currentPlayerIndex g1)
         then yahtzeeStartTurn
                (g1\<lparr>y_currentPlayerIndex := (y_currentPlayerIndex g1 + 1) mod length (y_players g1)\<rparr>)
         else Some g1)"

declare yahtzeeStartTurn.simps [code]

definition yahtzeeNextPlayer :: "YahtzeeGame \<Rightarrow> YahtzeeGame option" where
  "yahtzeeNextPlayer g =
     yahtzeeStartTurn
       (g\<lparr>y_currentPlayerIndex := (y_currentPlayerIndex g + 1) mod length (y_players g)\<rparr>)"

definition yahtzeeWinnerStep ::
  "YahtzeePlayer \<Rightarrow> int \<times> YahtzeePlayer list \<Rightarrow> int \<times> YahtzeePlayer list" where
  "yahtzeeWinnerStep p mw =
     (case mw of (maxScore, winners) \<Rightarrow>
        let t = int (calculateTotal p categories)
        in if t > maxScore then (t, [p])
           else if t = maxScore then (maxScore, winners @ [p])
           else (maxScore, winners))"

definition yahtzeeEndGame :: "YahtzeeGame \<Rightarrow> YahtzeeGame" where
  "yahtzeeEndGame g =
     g\<lparr>y_matchResult := Some (snd (fold yahtzeeWinnerStep (y_players g) (-1, [])))\<rparr>"

text \<open>\<open>_selectCategory(catId)\<close>\<close>

definition selectCategory :: "string \<Rightarrow> YahtzeeGame \<Rightarrow> YahtzeeGame option" where
  "selectCategory catId g =
     (if \<not> hasRolled (y_diceEngine g) \<or> isRolling (y_diceEngine g) then Some g
      else
        let p = y_players g ! y_currentPlayerIndex g
        in (case List.find (\<lambda>c. cat_id c = catId) categories of
              None \<Rightarrow> Some g
            | Some cat \<Rightarrow>
                if scores p catId \<noteq> None then Some g
                else
                  let score = calc cat (getValues (y_diceEngine g));
                      bonus = (catId = ''yahtzee'' \<and> score = 50);
                      p1 = (if bonus then p\<lparr>yahtzees := yahtzees p + 1\<rparr> else p);
                      score1 = (if bonus \<and> yahtzees p1 > 1 then 100 else score);
                      p2 = p1\<lparr>scores := (scores p1)(catId \<mapsto> score1)\<rparr>;
                      g1 = g\<lparr>y_players := (y_players g)[y_currentPlayerIndex g := p2]\<rparr>
                  in if list_all isPlayerFinished (y_players g1) then Some (yahtzeeEndGame g1)
                     else yahtzeeNextPlayer g1))"

text \<open>\<open>_rollDice()\<close> of the Yahtzee controller, and the end of the roll animation.\<close>

definition yahtzeeRollDice :: "(nat \<Rightarrow> nat) \<Rightarrow> YahtzeeGame \<Rightarrow> YahtzeeGame" where
  "yahtzeeRollDice rnd g =
     (if \<not> canRoll (y_diceEngine g) then g
      else g\<lparr>y_diceEngine := snd (roll rnd (y_diceEngine g))\<rparr>)"

definition yahtzeeRollFinished :: "YahtzeeGame \<Rightarrow> YahtzeeGame" where
  "yahtzeeRollFinished g = g\<lparr>y_diceEngine := finishRoll (y_diceEngine g)\<rparr>"

definition newYahtzeeGame :: "(string \<times> string) list \<Rightarrow> YahtzeeGame" where
  "newYahtzeeGame ps =
     \<lparr>y_players = map (\<lambda>(i, (n, c)). \<lparr>yp_id = i, yp_name = n, yp_color = c,
                                        scores = Map.empty, yahtzees = 0\<rparr>) (enumerate 0 ps),
      y_currentPlayerIndex = 0,
      y_diceEngine = newDiceEngine 5 6 3,
      y_matchResult = None\<rparr>"

section \<open>Example games\<close>

text \<open>Random draws that make every rolled die show 5.\<close>

definition rnd5 :: "nat \<Rightarrow> nat" where
  "rnd5 i = 4"

definition examplePlayers :: "Player list" where
  "examplePlayers =
     [\<lparr>player_id = 0, name = ''A'', color = ''red'', totalScore = 0\<rparr>,
      \<lparr>player_id = 1, name = ''B'', color = ''blue'', totalScore = 0\<rparr>]"

text \<open>
  A turn of the first player in which every roll shows 5s only: two dice are selected and
  confirmed after the first roll and after the second roll, and after the third roll the last
  two dice are selected.
\<close>

definition afterFirstConfirm :: FarkleGame where
  "afterFirstConfirm =
     confirmSelection (onDiceClick 1 (onDiceClick 0 (rollFinished (rollDice rnd5
       (startTurn (newFarkleGame ''g'' examplePlayers))))))"

definition afterSecondConfirm :: FarkleGame where
  "afterSecondConfirm =
     confirmSelection (onDiceClick 3 (onDiceClick 2 (rollFinished (rollDice rnd5 afterFirstConfirm))))"

definition thirdRollSelection :: FarkleGame where
  "thirdRollSelection =
     onDiceClick 5 (onDiceClick 4 (rollFinished (rollDice rnd5 afterSecondConfirm)))"

text \<open>
  A third roll with three dice set aside and 250 points, where a single 5 is selected.
\<close>

definition forcedBustExample :: FarkleGame where
  "forcedBustExample =
     (newFarkleGame ''g'' examplePlayers)
       \<lparr>turnScore := 250, rollCount := 3, setAsideDice := [0, 1, 2], selectedDice := [3],
        turnState := Selecting,
        diceEngine := (newDiceEngine 6 6 999)\<lparr>values_list := [5, 5, 5, 5, 2, 3],
                        held := [True, True, True, False, False, False], rollsLeft := 0,
                        hasRolled := True\<rparr>\<rparr>"

text \<open>Random draws that make the six dice show 1 to 6 in order.\<close>

definition rndStraight :: "nat \<Rightarrow> nat" where
  "rndStraight i = i"

text \<open>
  A first roll that shows 1 to 6, the same with the die showing 2 selected, and the same
  roll while its animation is still running.
\<close>

definition firstRollExample :: FarkleGame where
  "firstRollExample =
     rollFinished (rollDice rndStraight (startTurn (newFarkleGame ''g'' examplePlayers)))"

definition nonScoringExample :: FarkleGame where
  "nonScoringExample = onDiceClick 1 firstRollExample"

definition rollingExample :: FarkleGame where
  "rollingExample = rollDice rndStraight (startTurn (newFarkleGame ''g'' examplePlayers))"

text \<open>The start of a turn, where \<open>_nextPlayer\<close> saves the game.\<close>

definition idleExample :: FarkleGame where
  "idleExample = startTurn (newFarkleGame ''g'' examplePlayers)"

text \<open>
  A roll in progress with the dice showing 1 and 5 set aside and the other four showing
  2, 3, 4 and 6.
\<close>

definition farkleExample :: FarkleGame where
  "farkleExample = firstRollExample\<lparr>setAsideDice := [0, 4], turnState := Rolling,
     diceEngine := (diceEngine firstRollExample)\<lparr>values_list := [1, 2, 3, 4, 5, 6], isRolling := True\<rparr>\<rparr>"


text \<open>
  A match of three players that was saved with totals 9800, 9000 and 9500. The first player
  rolls six 5s, sets three of them aside and banks 500.
\<close>

definition threePlayers :: "Player list" where
  "threePlayers =
     [\<lparr>player_id = 0, name = ''A'', color = ''red'', totalScore = 9800\<rparr>,
      \<lparr>player_id = 1, name = ''B'', color = ''blue'', totalScore = 9000\<rparr>,
      \<lparr>player_id = 2, name = ''C'', color = ''green'', totalScore = 9500\<rparr>]"

definition triggerTurnExample :: FarkleGame where
  "triggerTurnExample =
     bank (confirmSelection (onDiceClick 2 (onDiceClick 1 (onDiceClick 0
       (rollFinished (rollDice rnd5 (startTurn (newFarkleGame ''g'' threePlayers))))))))"

text \<open>Random draws that make the six dice show 1, 2, 3, 4, 5 and 5.\<close>

definition rndPair :: "nat \<Rightarrow> nat" where
  "rndPair i = (if i = 5 then 4 else i)"

text \<open>Random draws that make every rolled die show 2.\<close>

definition rndTwo :: "nat \<Rightarrow> nat" where
  "rndTwo i = 1"

text \<open>
  The second player's turn in the final round: the first roll shows 1, 2, 3, 4, 5 and 5,
  the player tries the straight, and the die rolled again shows 2.
\<close>

definition straightOfferedExample :: FarkleGame where
  "straightOfferedExample = rollFinished (rollDice rndPair triggerTurnExample)"

definition failedStraightExample :: FarkleGame where
  "failedStraightExample = straightAttemptRoll rndTwo straightOfferedExample"

text \<open>
  A game of one player in which every roll shows five 6s: the first roll of the game, and the
  first roll of the next turn after the player has chosen the Yahtzee box.
\<close>

definition rnd6 :: "nat \<Rightarrow> nat" where
  "rnd6 i = 5"

definition firstYahtzeeRoll :: "YahtzeeGame option" where
  "firstYahtzeeRoll =
     map_option (\<lambda>g. yahtzeeRollFinished (yahtzeeRollDice rnd6 g))
       (yahtzeeStartTurn (newYahtzeeGame [(''A'', ''red'')]))"

definition secondYahtzeeRoll :: "YahtzeeGame option" where
  "secondYahtzeeRoll =
     map_option (\<lambda>g. yahtzeeRollFinished (yahtzeeRollDice rnd6 g))
       (Option.bind firstYahtzeeRoll (selectCategory ''yahtzee''))"

text \<open>
  What the claim about the Yahtzee bonus looks at, for the player on turn: the Yahtzee
  counter, the Yahtzee box, the box of the sixes, the dice and the game total.
\<close>

definition sheetOf :: "YahtzeeGame \<Rightarrow> nat \<times> nat option \<times> nat option \<times> nat list \<times> nat" where
  "sheetOf g =
     (let p = y_players g ! y_currentPlayerIndex g
      in (yahtzees p, scores p ''yahtzee'', scores p ''sixes'', values_list (y_diceEngine g),
          calculateTotal p categories))"

section \<open>Properties of the scoring functions\<close>

subsection \<open>The frequency table\<close>

lemma lookup0_update: "lookup0 (AList.update k v fr) x = (if x = k then v else lookup0 fr x)"
  by (simp add: lookup0_def update_conv')

lemma map_of_bumpCount: "map_of (bumpCount v fr) = (map_of fr)(v \<mapsto> lookup0 fr v + 1)"
  by (simp add: bumpCount_def update_conv')

lemma lookup0_bumpCount: "lookup0 (bumpCount v fr) x = (if x = v then lookup0 fr v + 1 else lookup0 fr x)"
  by (simp add: bumpCount_def lookup0_update)

lemma distinct_bumpCount: "distinct (map fst fr) \<Longrightarrow> distinct (map fst (bumpCount v fr))"
  by (simp add: bumpCount_def distinct_update)

lemma fold_count_map_of:
  "map_of (fold bumpCount ds acc) x =
     (if x \<in> set ds \<or> map_of acc x \<noteq> None then Some (count_list ds x + lookup0 acc x) else None)"
proof (induction ds arbitrary: acc)
  case Nil
  show ?case by (auto simp: lookup0_def)
next
  case (Cons d ds)
  show ?case
    by (simp add: Cons.IH map_of_bumpCount lookup0_bumpCount)
qed

lemma map_of_countFrequency:
  "map_of (countFrequency ds) x = (if x \<in> set ds then Some (count_list ds x) else None)"
  by (simp add: countFrequency_def fold_count_map_of lookup0_def)

lemma lookup0_countFrequency: "lookup0 (countFrequency ds) x = count_list ds x"
  by (simp add: lookup0_def map_of_countFrequency count_list_0_iff)

lemma fold_count_distinct:
  "distinct (map fst acc) \<Longrightarrow>
   distinct (map fst (fold bumpCount ds acc))"
  by (induction ds arbitrary: acc) (simp_all add: distinct_bumpCount)

lemma distinct_countFrequency: "distinct (map fst (countFrequency ds))"
  by (simp add: countFrequency_def fold_count_distinct)

lemma keys_countFrequency: "set (map fst (countFrequency ds)) = set ds"
proof -
  have "fst ` set (countFrequency ds) = dom (map_of (countFrequency ds))"
    by (simp add: dom_map_of_conv_image_fst)
  also have "\<dots> = set ds"
    by (auto simp: map_of_countFrequency dom_def)
  finally show ?thesis by simp
qed

lemma filter_snd_keys:
  "distinct (map fst al) \<Longrightarrow>
   length (filter (\<lambda>c. c = k) (map snd al)) = card {x \<in> fst ` set al. map_of al x = Some k}"
proof (induction al)
  case Nil
  show ?case by simp
next
  case (Cons p al)
  obtain a b where p: "p = (a, b)" by (cases p)
  from Cons.prems p have a: "a \<notin> fst ` set al" and d: "distinct (map fst al)" by auto
  have fin: "finite {x \<in> fst ` set al. map_of al x = Some k}" by simp
  have eq: "{x \<in> fst ` set (p # al). map_of (p # al) x = Some k} =
        (if b = k then insert a {x \<in> fst ` set al. map_of al x = Some k}
         else {x \<in> fst ` set al. map_of al x = Some k})"
    using a by (auto simp: p)
  have notin: "a \<notin> {x \<in> fst ` set al. map_of al x = Some k}" using a by simp
  show ?case
    unfolding eq using Cons.IH[OF d] notin fin by (simp add: p)
qed

lemma countOf_countFrequency:
  "countOf k (countFrequency ds) = card {v \<in> set ds. count_list ds v = k}"
proof -
  have "countOf k (countFrequency ds) =
        card {x \<in> fst ` set (countFrequency ds). map_of (countFrequency ds) x = Some k}"
    unfolding countOf_def objectValues_def
    by (rule filter_snd_keys [OF distinct_countFrequency])
  also have "{x \<in> fst ` set (countFrequency ds). map_of (countFrequency ds) x = Some k} =
             {v \<in> set ds. count_list ds v = k}"
    using keys_countFrequency [of ds] by (auto simp: map_of_countFrequency)
  finally show ?thesis .
qed

lemma everyOnce_countFrequency:
  "everyOnce (countFrequency ds) = list_all (\<lambda>v. count_list ds v = 1) [1, 2, 3, 4, 5, 6]"
  by (auto simp: everyOnce_def faces16_def map_of_countFrequency count_list_0_iff)

lemma extractMultiple_score:
  "fst (extractMultiple val (s, r)) = s + multScore val (lookup0 r val)"
  by (simp add: extractMultiple_def multScore_def Let_def)

lemma extractMultiple_lookup:
  "lookup0 (snd (extractMultiple val (s, r))) x =
     (if x = val then afterMult (lookup0 r val) else lookup0 r x)"
  by (simp add: extractMultiple_def afterMult_def Let_def lookup0_update)

lemma fold_extractMultiple:
  "distinct vals \<Longrightarrow>
   fst (fold extractMultiple vals (s, r)) = s + sum_list (map (\<lambda>v. multScore v (lookup0 r v)) vals) \<and>
   (\<forall>x. lookup0 (snd (fold extractMultiple vals (s, r))) x =
        (if x \<in> set vals then afterMult (lookup0 r x) else lookup0 r x))"
proof (induction vals arbitrary: s r)
  case Nil
  show ?case by simp
next
  case (Cons v vals)
  obtain s1 r1 where st: "extractMultiple v (s, r) = (s1, r1)" by (cases "extractMultiple v (s, r)")
  have s1: "s1 = s + multScore v (lookup0 r v)"
    using extractMultiple_score [of v s r] st by simp
  have r1: "lookup0 r1 x = (if x = v then afterMult (lookup0 r v) else lookup0 r x)" for x
    using extractMultiple_lookup [of v s r x] st by simp
  from Cons.prems have d: "distinct vals" and nv: "v \<notin> set vals" by auto
  have r1': "lookup0 r1 x = lookup0 r x" if "x \<in> set vals" for x
    using that nv by (auto simp: r1)
  have same: "map (\<lambda>x. multScore x (lookup0 r1 x)) vals = map (\<lambda>x. multScore x (lookup0 r x)) vals"
    by (rule map_cong) (simp_all add: r1')
  note ih = Cons.IH [OF d, of s1 r1]
  have a: "fst (fold extractMultiple (v # vals) (s, r)) =
           s + sum_list (map (\<lambda>v. multScore v (lookup0 r v)) (v # vals))"
    using ih by (simp add: st same s1)
  have b: "lookup0 (snd (fold extractMultiple (v # vals) (s, r))) x =
        (if x \<in> set (v # vals) then afterMult (lookup0 r x) else lookup0 r x)" for x
  proof -
    have "lookup0 (snd (fold extractMultiple (v # vals) (s, r))) x =
          (if x \<in> set vals then afterMult (lookup0 r1 x) else lookup0 r1 x)"
      using ih by (simp add: st)
    also have "\<dots> = (if x \<in> set (v # vals) then afterMult (lookup0 r x) else lookup0 r x)"
      using nv by (auto simp: r1)
    finally show ?thesis .
  qed
  show ?case using a b by blast
qed

lemma scoreSingles_eq:
  "distinct vals \<Longrightarrow>
   scoreSingles vals s r =
     (if \<exists>v \<in> set vals. lookup0 r v > 0 \<and> SINGLE_SCORES v = None then None
      else Some (s + sum_list (map (\<lambda>v. singleScore v (lookup0 r v)) vals)))"
proof (induction vals arbitrary: s r)
  case Nil
  show ?case by simp
next
  case (Cons v vals)
  from Cons.prems have d: "distinct vals" and nv: "v \<notin> set vals" by auto
  let ?r' = "AList.update v 0 r"
  have keep: "lookup0 ?r' x = lookup0 r x" if "x \<in> set vals" for x
    using that nv by (auto simp: lookup0_update)
  have same: "map (\<lambda>x. singleScore x (lookup0 ?r' x)) vals =
              map (\<lambda>x. singleScore x (lookup0 r x)) vals"
    by (rule map_cong) (simp_all add: keep)
  have bad: "(\<exists>x \<in> set vals. lookup0 ?r' x > 0 \<and> SINGLE_SCORES x = None) =
             (\<exists>x \<in> set vals. lookup0 r x > 0 \<and> SINGLE_SCORES x = None)"
    using keep by auto
  show ?case
  proof (cases "lookup0 r v > 0")
    case False
    then have "scoreSingles (v # vals) s r = scoreSingles vals s r" by simp
    also note Cons.IH [OF d, of s r]
    finally show ?thesis using False by (simp add: singleScore_def split: option.splits)
  next
    case pos: True
    show ?thesis
    proof (cases "SINGLE_SCORES v")
      case None
      then show ?thesis using pos by auto
    next
      case (Some k)
      have "scoreSingles (v # vals) s r = scoreSingles vals (s + k * lookup0 r v) ?r'"
        using pos Some by simp
      also have "\<dots> = (if \<exists>x \<in> set vals. lookup0 r x > 0 \<and> SINGLE_SCORES x = None then None
          else Some (s + k * lookup0 r v + sum_list (map (\<lambda>x. singleScore x (lookup0 r x)) vals)))"
        unfolding Cons.IH [OF d, of "s + k * lookup0 r v" ?r'] bad same ..
      finally show ?thesis using Some by (simp add: singleScore_def)
    qed
  qed
qed

lemma multScore_pow:
  "c \<le> 6 \<Longrightarrow> multScore v c = (if c \<ge> 3 then TRIPLE_BASE v * 2 ^ (c - 3) else 0)"
proof -
  assume "c \<le> 6"
  then consider "c < 3" | "c = 3" | "c = 4" | "c = 5" | "c = 6" by linarith
  then show ?thesis by cases (simp_all add: multScore_def)
qed

lemma afterMult_leftover:
  "count_list ds v \<le> 6 \<Longrightarrow> afterMult (count_list ds v) = leftover ds v"
  by (simp add: afterMult_def leftover_def)

lemma TRIPLE_BASE_base: "v \<in> set faces16 \<Longrightarrow> TRIPLE_BASE v = base v"
  by (auto simp: faces16_def TRIPLE_BASE_def base_def)

lemma multScore_nOfAKind:
  "count_list ds v \<le> 6 \<Longrightarrow> v \<in> set faces16 \<Longrightarrow> multScore v (count_list ds v) = nOfAKind ds v"
  by (simp add: multScore_pow TRIPLE_BASE_base nOfAKind_def)

lemma sum_nOfAKind:
  assumes "set ds \<subseteq> set faces16"
  shows "sum_list (map (nOfAKind ds) faces16) = (\<Sum>v \<in> set ds. nOfAKind ds v)"
proof -
  have d: "distinct faces16" by (simp add: faces16_def)
  have "sum_list (map (nOfAKind ds) faces16) = (\<Sum>v \<in> set faces16. nOfAKind ds v)"
    by (rule sum_list_distinct_conv_sum_set [OF d])
  also have "\<dots> = (\<Sum>v \<in> set ds. nOfAKind ds v)"
  proof (rule sum.mono_neutral_right)
    show "finite (set faces16)" by simp
    show "set ds \<subseteq> set faces16" by (rule assms)
    show "\<forall>i \<in> set faces16 - set ds. nOfAKind ds i = 0"
      by (simp add: nOfAKind_def count_list_0_iff)
  qed
  finally show ?thesis .
qed

lemma scoreSelection_loops:
  assumes faces: "set ds \<subseteq> set faces16" and le6: "\<forall>v. count_list ds v \<le> 6"
  shows "(case fold extractMultiple faces16 (0, countFrequency ds) of
            (score, remaining') \<Rightarrow> scoreSingles faces16 score remaining') =
         (if list_ex (\<lambda>v. v \<noteq> 1 \<and> v \<noteq> 5 \<and> leftover ds v > 0) ds then None
          else Some (spec_total ds))"
proof -
  have d: "distinct faces16" by (simp add: faces16_def)
  obtain sc r' where f: "fold extractMultiple faces16 (0, countFrequency ds) = (sc, r')"
    by (cases "fold extractMultiple faces16 (0, countFrequency ds)")
  note fe = fold_extractMultiple [OF d, of 0 "countFrequency ds"]
  have "sc = sum_list (map (\<lambda>v. multScore v (count_list ds v)) faces16)"
    using fe f by (simp add: lookup0_countFrequency)
  also have "map (\<lambda>v. multScore v (count_list ds v)) faces16 = map (nOfAKind ds) faces16"
    by (rule map_cong) (simp_all add: multScore_nOfAKind le6)
  finally have sc: "sc = (\<Sum>v \<in> set ds. nOfAKind ds v)"
    by (simp add: sum_nOfAKind [OF faces])
  have r': "lookup0 r' x = leftover ds x" for x
  proof -
    have "lookup0 r' x = (if x \<in> set faces16 then afterMult (count_list ds x) else count_list ds x)"
      using fe f by (simp add: lookup0_countFrequency)
    also have "\<dots> = leftover ds x"
    proof (cases "x \<in> set faces16")
      case True
      then show ?thesis using le6 by (simp add: afterMult_leftover)
    next
      case False
      then have "x \<notin> set ds" using faces by auto
      then show ?thesis using False by (simp add: leftover_def count_list_0_iff)
    qed
    finally show ?thesis .
  qed
  have bad: "(\<exists>v \<in> set faces16. lookup0 r' v > 0 \<and> SINGLE_SCORES v = None) =
             list_ex (\<lambda>v. v \<noteq> 1 \<and> v \<noteq> 5 \<and> leftover ds v > 0) ds"
  proof -
    have in_ds: "v \<in> set ds" if "leftover ds v > 0" for v
    proof -
      from that have "count_list ds v \<noteq> 0" by (simp add: leftover_def split: if_splits)
      then show ?thesis by (simp add: count_list_0_iff)
    qed
    show ?thesis
      unfolding list_ex_iff r' using faces in_ds
      by (auto simp: SINGLE_SCORES_def split: if_splits)
  qed
  have singles: "sum_list (map (\<lambda>v. singleScore v (lookup0 r' v)) faces16) =
                 100 * leftover ds 1 + 50 * leftover ds 5"
    by (simp add: faces16_def singleScore_def SINGLE_SCORES_def r')
  show ?thesis
    unfolding f prod.case scoreSingles_eq [OF d] bad singles
    by (simp add: spec_total_def sc)
qed

lemma scoreSelection_tail:
  assumes faces: "set ds \<subseteq> set faces16" and le6: "\<forall>v. count_list ds v \<le> 6"
  shows "(case fold extractMultiple faces16 (0, countFrequency ds) of
            (score, remaining') \<Rightarrow>
              (case scoreSingles faces16 score remaining' of
                 None \<Rightarrow> None
               | Some score' \<Rightarrow> if score' > 0 then Some score' else None)) =
         (if list_ex (\<lambda>v. v \<noteq> 1 \<and> v \<noteq> 5 \<and> leftover ds v > 0) ds then None
          else if spec_total ds = 0 then None
          else Some (spec_total ds))"
proof -
  obtain sc r' where f: "fold extractMultiple faces16 (0, countFrequency ds) = (sc, r')"
    by (cases "fold extractMultiple faces16 (0, countFrequency ds)")
  have "scoreSingles faces16 sc r' =
         (if list_ex (\<lambda>v. v \<noteq> 1 \<and> v \<noteq> 5 \<and> leftover ds v > 0) ds then None
          else Some (spec_total ds))"
    using scoreSelection_loops [OF faces le6] by (simp add: f)
  then show ?thesis by (simp add: f)
qed

lemma scoreSelection_refines:
  assumes faces: "set ds \<subseteq> set faces16" and le6: "\<forall>v. count_list ds v \<le> 6"
  shows "scoreSelection ds = spec_scoreSelection ds"
proof (cases "ds = []")
  case True
  then show ?thesis by (simp add: scoreSelection_def spec_scoreSelection_def)
next
  case False
  show ?thesis
    unfolding scoreSelection_def spec_scoreSelection_def Let_def
      scoreSelection_tail [OF faces le6] everyOnce_countFrequency countOf_countFrequency
      spec_straight_def spec_threePairs_def spec_twoTriplets_def
      STRAIGHT_SCORE_def THREE_PAIRS_SCORE_def TWO_TRIPLETS_SCORE_def
    using False by simp
qed

lemmas scoring_defs =
  scoreSelection_def countFrequency_def bumpCount_def lookup0_def everyOnce_def countOf_def
  objectValues_def objectKeys_def faces16_def extractMultiple_def SINGLE_SCORES_def
  TRIPLE_BASE_def STRAIGHT_SCORE_def THREE_PAIRS_SCORE_def TWO_TRIPLETS_SCORE_def

lemmas spec_scoring_defs =
  spec_scoreSelection_def spec_straight_def spec_threePairs_def spec_twoTriplets_def
  spec_total_def nOfAKind_def leftover_def base_def

lemma scoreSelection_examples:
  "scoreSelection [1, 1, 1] = Some 1000"
  "scoreSelection [2, 2, 2] = Some 200"
  "scoreSelection [1, 2, 3, 4, 5, 6] = Some 1000"
  "scoreSelection [2, 2, 3, 3, 5, 5] = Some 1500"
  "scoreSelection [4, 4, 4, 2, 2, 2] = Some 2500"
  "scoreSelection [1, 1, 1, 1] = Some 2000"
  "scoreSelection [2, 3, 4] = None"
  by (simp_all add: scoring_defs)

text \<open>
  Claim C1, as amended. For every list of die faces (values 1 to 6) in which no face occurs
  more than six times, so in particular for every selection from the six dice of the game,
  \<open>scoreSelection\<close> follows the priority algorithm of the specification: with exactly
  six dice a straight scores 1000, three pairs 1500 and two triplets 2500; otherwise each
  face \<open>v\<close> that occurs \<open>count \<ge> 3\<close> times contributes \<open>base v * 2 ^ (count - 3)\<close>,
  leftover dice score 100 per 1 and 50 per 5, and any other leftover face, an empty input or
  a zero total gives \<open>null\<close>. The seven examples of the specification hold as stated.
\<close>

theorem scoreSelection_priority:
  assumes "list_all (\<lambda>d. 1 \<le> d \<and> d \<le> 6) ds"
    and "list_all (\<lambda>v. count_list ds v \<le> 6) faces16"
  shows "scoreSelection ds = spec_scoreSelection ds \<and>
         scoreSelection [1, 1, 1] = Some 1000 \<and>
         scoreSelection [2, 2, 2] = Some 200 \<and>
         scoreSelection [1, 2, 3, 4, 5, 6] = Some 1000 \<and>
         scoreSelection [2, 2, 3, 3, 5, 5] = Some 1500 \<and>
         scoreSelection [4, 4, 4, 2, 2, 2] = Some 2500 \<and>
         scoreSelection [1, 1, 1, 1] = Some 2000 \<and>
         scoreSelection [2, 3, 4] = None"
proof -
  have faces: "set ds \<subseteq> set faces16"
    using assms(1) by (auto simp: list_all_iff faces16_def)
  have le6: "\<forall>v. count_list ds v \<le> 6"
  proof
    fix v
    show "count_list ds v \<le> 6"
    proof (cases "v \<in> set faces16")
      case True
      then show ?thesis using assms(2) by (simp add: list_all_iff)
    next
      case False
      then have "v \<notin> set ds" using faces by auto
      then show ?thesis by (simp add: count_list_0_iff)
    qed
  qed
  show ?thesis
    by (intro conjI scoreSelection_examples scoreSelection_refines [OF faces le6])
qed

text \<open>
  An instance of C1: three 2s and a 5 are in the range of the theorem and score 250.
\<close>

theorem scoreSelection_priority_witness:
  "list_all (\<lambda>d. 1 \<le> d \<and> d \<le> 6) [2, 2, 2, 5 :: nat] \<and>
   list_all (\<lambda>v. count_list [2, 2, 2, 5 :: nat] v \<le> 6) faces16 \<and>
   scoreSelection [2, 2, 2, 5] = spec_scoreSelection [2, 2, 2, 5] \<and>
   spec_scoreSelection [2, 2, 2, 5] = Some 250"
proof -
  have h1: "list_all (\<lambda>d. 1 \<le> d \<and> d \<le> 6) [2, 2, 2, 5 :: nat]" by simp
  have h2: "list_all (\<lambda>v. count_list [2, 2, 2, 5 :: nat] v \<le> 6) faces16"
    by (simp add: faces16_def)
  have v: "spec_scoreSelection [2, 2, 2, 5] = Some 250"
    by (simp add: spec_scoring_defs)
  show ?thesis using scoreSelection_priority [OF h1 h2] h1 h2 v by blast
qed

text \<open>
  Claim C1 as stated is about every list of die faces. With seven dice showing 1 the code
  extracts six of a kind (8 times the base) and scores the seventh die as a single 1, which
  gives 8100, where \<open>base v * 2 ^ (count - 3)\<close> is 16000.
\<close>

theorem scoreSelection_seven_ones:
  "scoreSelection [1, 1, 1, 1, 1, 1, 1] = Some 8100 \<and>
   spec_scoreSelection [1, 1, 1, 1, 1, 1, 1] = Some 16000"
  by (simp add: scoring_defs spec_scoring_defs)

section \<open>Properties of the turn state machine\<close>

subsection \<open>Evaluating the example games\<close>

lemmas game_defs = newFarkleGame_def newDiceEngine_def startTurn_def rollDice_def roll_def
  rollFinished_def finishRoll_def onRollEnd_def availableDice_def availableIndices_def
  valueAt_def heldAt_def onDiceClick_def setAdd_def setDelete_def confirmSelection_def
  selectedValues_def handleHotDice_def handleFarkle_def handleForcedFarkle_def
  hotDiceTimeout_def MIN_SCORE_3RD_ROLL_def isFarkle_def detectStraightAttempt_def

lemma upt6: "[0..<6] = [0, 1, 2, 3, 4, 5]"
  by (simp add: upt_rec)

lemma list_update_Cons_numeral:
  "(x # xs)[numeral k := y] = x # xs[pred_numeral k := y]"
  by (simp add: numeral_eq_Suc)

lemma replicate6: "replicate 6 x = [x, x, x, x, x, x]"
  by (simp add: numeral_eq_Suc)

lemma afterFirstConfirm_eq:
  "afterFirstConfirm =
     \<lparr>gameId = ''g'', players = examplePlayers, currentPlayerIndex = 0, turnScore = 100,
      rollCount = 1, setAsideDice = [0, 1], selectedDice = [], turnState = Confirmed,
      straightAttemptData = None, finalRound = False, finalRoundTriggerPlayer = -1,
      playersHadFinalTurn = [],
      diceEngine = \<lparr>values_list = [5, 5, 5, 5, 5, 5],
                      held = [False, False, False, False, False, False], rollsLeft = 0,
                      hasRolled = True, count = 6, sides = 6, maxRolls = 999, isRolling = False\<rparr>,
      matchResult = None, timers = []\<rparr>"
  by (simp add: afterFirstConfirm_def game_defs scoring_defs rnd5_def replicate6
      list_update_Cons_numeral upt6 Let_def)

lemma afterSecondConfirm_eq:
  "afterSecondConfirm =
     \<lparr>gameId = ''g'', players = examplePlayers, currentPlayerIndex = 0, turnScore = 200,
      rollCount = 2, setAsideDice = [0, 1, 2, 3], selectedDice = [], turnState = Confirmed,
      straightAttemptData = None, finalRound = False, finalRoundTriggerPlayer = -1,
      playersHadFinalTurn = [],
      diceEngine = \<lparr>values_list = [5, 5, 5, 5, 5, 5],
                      held = [True, True, False, False, False, False], rollsLeft = 0,
                      hasRolled = True, count = 6, sides = 6, maxRolls = 999, isRolling = False\<rparr>,
      matchResult = None, timers = []\<rparr>"
  by (simp add: afterSecondConfirm_def afterFirstConfirm_eq game_defs scoring_defs rnd5_def
      replicate6 list_update_Cons_numeral upt6 Let_def)

lemma thirdRollSelection_eq:
  "thirdRollSelection =
     \<lparr>gameId = ''g'', players = examplePlayers, currentPlayerIndex = 0, turnScore = 200,
      rollCount = 3, setAsideDice = [0, 1, 2, 3], selectedDice = [4, 5], turnState = Selecting,
      straightAttemptData = None, finalRound = False, finalRoundTriggerPlayer = -1,
      playersHadFinalTurn = [],
      diceEngine = \<lparr>values_list = [5, 5, 5, 5, 5, 5],
                      held = [True, True, True, True, False, False], rollsLeft = 0,
                      hasRolled = True, count = 6, sides = 6, maxRolls = 999, isRolling = False\<rparr>,
      matchResult = None, timers = []\<rparr>"
  by (simp add: thirdRollSelection_def afterSecondConfirm_eq game_defs scoring_defs rnd5_def
      replicate6 list_update_Cons_numeral upt6 Let_def)

lemma confirm_cases:
  assumes "turnState g = Selecting" and "selectedDice g \<noteq> []"
    and "scoreSelection (selectedValues g) = Some sc"
  shows "confirmSelection g =
     (let g1 = g\<lparr>turnScore := turnScore g + sc,
                 setAsideDice := fold setAdd (selectedDice g) (setAsideDice g),
                 selectedDice := []\<rparr>
      in if length (setAsideDice g1) \<ge> 6 then handleHotDice g1
         else if rollCount g1 \<ge> 3 \<and> turnScore g1 < MIN_SCORE_3RD_ROLL then handleForcedFarkle g1
         else g1\<lparr>turnState := Confirmed\<rparr>)"
  using assms by (simp add: confirmSelection_def)

subsection \<open>Confirming a selection\<close>

text \<open>
  Claim C2, as amended. When a player confirms a valid selection that leaves fewer than six
  dice set aside, with \<open>rollCount \<ge> 3\<close> and a resulting turn score below 350, the turn
  becomes a bust and the turn score is reset to 0, whatever dice were scored; in particular
  with \<open>rollCount = 3\<close> and a resulting turn score of 300. (A selection that completes the
  six dice is a hot dice instead, and keeps the turn score.)
\<close>

theorem forced_bust_after_confirm:
  assumes "turnState g = Selecting" and "selectedDice g \<noteq> []"
    and "scoreSelection (selectedValues g) = Some sc"
    and "length (fold setAdd (selectedDice g) (setAsideDice g)) < 6"
    and "rollCount g \<ge> 3" and "turnScore g + sc < 350"
  shows "turnState (confirmSelection g) = Farkle \<and> turnScore (confirmSelection g) = 0 \<and>
         rollCount (confirmSelection g) = rollCount g"
  using assms
  by (simp add: confirm_cases Let_def handleForcedFarkle_def MIN_SCORE_3RD_ROLL_def)

text \<open>
  An instance of C2: the third roll with 250 points and a single 5 confirmed, 300 in all.
\<close>

theorem forced_bust_after_confirm_witness:
  "turnState forcedBustExample = Selecting \<and> selectedDice forcedBustExample \<noteq> [] \<and>
   scoreSelection (selectedValues forcedBustExample) = Some 50 \<and>
   length (fold setAdd (selectedDice forcedBustExample) (setAsideDice forcedBustExample)) < 6 \<and>
   rollCount forcedBustExample = 3 \<and> turnScore forcedBustExample + 50 = 300 \<and>
   turnState (confirmSelection forcedBustExample) = Farkle \<and>
   turnScore (confirmSelection forcedBustExample) = 0"
proof -
  have h1: "turnState forcedBustExample = Selecting"
    by (simp add: forcedBustExample_def)
  have h2: "selectedDice forcedBustExample \<noteq> []"
    by (simp add: forcedBustExample_def)
  have h3: "scoreSelection (selectedValues forcedBustExample) = Some 50"
    by (simp add: forcedBustExample_def selectedValues_def valueAt_def newDiceEngine_def scoring_defs)
  have h4: "length (fold setAdd (selectedDice forcedBustExample) (setAsideDice forcedBustExample)) < 6"
    by (simp add: forcedBustExample_def setAdd_def)
  have h5: "rollCount forcedBustExample \<ge> 3" and h5': "rollCount forcedBustExample = 3"
    by (simp_all add: forcedBustExample_def)
  have h6: "turnScore forcedBustExample + 50 < 350" and h6': "turnScore forcedBustExample + 50 = 300"
    by (simp_all add: forcedBustExample_def)
  from forced_bust_after_confirm [OF h1 h2 h3 h4 h5 h6] h1 h2 h3 h4 h5' h6'
  show ?thesis by blast
qed

text \<open>
  Claim C2 as stated fails when the confirmed selection completes the six dice: in the turn
  of 5s, the third confirm has \<open>rollCount = 3\<close> and brings the turn score to 300, yet the
  hot dice check comes first, the turn is not a bust and the 300 points are kept.
\<close>

theorem hot_dice_precedes_forced_bust:
  "turnState thirdRollSelection = Selecting \<and>
   scoreSelection (selectedValues thirdRollSelection) = Some 100 \<and>
   rollCount (confirmSelection thirdRollSelection) = 3 \<and>
   turnScore (confirmSelection thirdRollSelection) = 300 \<and>
   turnState (confirmSelection thirdRollSelection) \<noteq> Farkle \<and>
   turnState (hotDiceTimeout (confirmSelection thirdRollSelection)) = Confirmed \<and>
   turnScore (hotDiceTimeout (confirmSelection thirdRollSelection)) = 300"
  by (simp add: thirdRollSelection_eq game_defs scoring_defs Let_def)





subsection \<open>Invalid commands\<close>

text \<open>
  Claim C7. Confirming an empty or a non-scoring selection in the \<open>selecting\<close> state
  returns the controller unchanged (so the turn state, turn score, set-aside dice and player
  totals are the same and no score is granted); \<open>roll\<close> while a roll is in progress or
  with no rolls left, and \<open>toggleHold\<close> while rolls are exhausted or a roll is in
  progress, return \<open>false\<close> and the engine unchanged; \<open>_bank\<close> outside \<open>confirmed\<close>
  and \<open>_rollDice\<close> outside \<open>idle\<close> and \<open>confirmed\<close> or during a roll change
  nothing. Every one of them returns normally.
\<close>

theorem invalid_commands_are_noops:
  "(turnState g = Selecting \<and> (selectedDice g = [] \<or> scoreSelection (selectedValues g) = None)
      \<longrightarrow> confirmSelection g = g) \<and>
   (rollsLeft e \<le> 0 \<or> isRolling e \<longrightarrow> roll rnd e = (False, e)) \<and>
   (rollsLeft e = 0 \<or> isRolling e \<longrightarrow> toggleHold i e = (False, e)) \<and>
   (turnState g \<noteq> Confirmed \<longrightarrow> bank g = g) \<and>
   (isRolling (diceEngine g) \<or> (turnState g \<noteq> Idle \<and> turnState g \<noteq> Confirmed)
      \<longrightarrow> rollDice rnd g = g)"
  by (auto simp: confirmSelection_def roll_def toggleHold_def bank_def rollDice_def)

lemma firstRollExample_eq:
  "firstRollExample =
     \<lparr>gameId = ''g'', players = examplePlayers, currentPlayerIndex = 0, turnScore = 0,
      rollCount = 1, setAsideDice = [], selectedDice = [], turnState = Selecting,
      straightAttemptData = None, finalRound = False, finalRoundTriggerPlayer = -1,
      playersHadFinalTurn = [],
      diceEngine = \<lparr>values_list = [1, 2, 3, 4, 5, 6],
                      held = [False, False, False, False, False, False], rollsLeft = 0,
                      hasRolled = True, count = 6, sides = 6, maxRolls = 999, isRolling = False\<rparr>,
      matchResult = None, timers = []\<rparr>"
  by (simp add: firstRollExample_def game_defs scoring_defs rndStraight_def replicate6
      list_update_Cons_numeral upt6 Let_def)

lemma rollingExample_eq:
  "rollingExample =
     \<lparr>gameId = ''g'', players = examplePlayers, currentPlayerIndex = 0, turnScore = 0,
      rollCount = 1, setAsideDice = [], selectedDice = [], turnState = Rolling,
      straightAttemptData = None, finalRound = False, finalRoundTriggerPlayer = -1,
      playersHadFinalTurn = [],
      diceEngine = \<lparr>values_list = [1, 2, 3, 4, 5, 6],
                      held = [False, False, False, False, False, False], rollsLeft = 0,
                      hasRolled = True, count = 6, sides = 6, maxRolls = 999, isRolling = True\<rparr>,
      matchResult = None, timers = []\<rparr>"
  by (simp add: rollingExample_def game_defs scoring_defs rndStraight_def replicate6
      list_update_Cons_numeral upt6 Let_def)

text \<open>
  Instances of C7 in a first roll of 1 to 6: an empty selection, the selection of the die
  showing 2, the engine with no rolls left and the engine while the dice are rolling.
\<close>

theorem invalid_commands_are_noops_witness:
  "turnState firstRollExample = Selecting \<and> selectedDice firstRollExample = [] \<and>
   confirmSelection firstRollExample = firstRollExample \<and>
   turnState nonScoringExample = Selecting \<and> selectedDice nonScoringExample = [1] \<and>
   scoreSelection (selectedValues nonScoringExample) = None \<and>
   confirmSelection nonScoringExample = nonScoringExample \<and>
   bank nonScoringExample = nonScoringExample \<and>
   rollDice rnd5 nonScoringExample = nonScoringExample \<and>
   rollsLeft (diceEngine nonScoringExample) = 0 \<and>
   roll rnd5 (diceEngine nonScoringExample) = (False, diceEngine nonScoringExample) \<and>
   toggleHold 2 (diceEngine nonScoringExample) = (False, diceEngine nonScoringExample) \<and>
   isRolling (diceEngine rollingExample) \<and>
   roll rnd5 (diceEngine rollingExample) = (False, diceEngine rollingExample) \<and>
   toggleHold 2 (diceEngine rollingExample) = (False, diceEngine rollingExample) \<and>
   rollDice rnd5 rollingExample = rollingExample"
proof -
  have a1: "turnState firstRollExample = Selecting" and a2: "selectedDice firstRollExample = []"
    by (simp_all add: firstRollExample_eq)
  have b1: "turnState nonScoringExample = Selecting"
    and b2: "selectedDice nonScoringExample = [1]"
    and b3: "scoreSelection (selectedValues nonScoringExample) = None"
    and b4: "rollsLeft (diceEngine nonScoringExample) = 0"
    by (simp_all add: nonScoringExample_def firstRollExample_eq onDiceClick_def setAdd_def
        selectedValues_def valueAt_def scoring_defs)
  have c1: "isRolling (diceEngine rollingExample)"
    by (simp add: rollingExample_eq)
  note A = invalid_commands_are_noops [of firstRollExample "diceEngine firstRollExample" rnd5 2]
  note B = invalid_commands_are_noops [of nonScoringExample "diceEngine nonScoringExample" rnd5 2]
  note C = invalid_commands_are_noops [of rollingExample "diceEngine rollingExample" rnd5 2]
  show ?thesis using A B C a1 a2 b1 b2 b3 b4 c1 by simp
qed

subsection \<open>Snapshots\<close>

text \<open>
  Claim C10. After \<open>restoreState(s)\<close> with any snapshot \<open>s\<close> the engine is not
  rolling, so \<open>roll\<close> is refused only when the snapshot has no rolls left.
\<close>

theorem restoreState_clears_isRolling:
  "isRolling (restoreState (Some s) e) = False \<and>
   fst (roll rnd (restoreState (Some s) e)) = (rollsLeft s > 0) \<and>
   canRoll (restoreState (Some s) e) = (rollsLeft s > 0)"
  by (auto simp: restoreState_def roll_def canRoll_def Let_def)

text \<open>
  An instance of C10: the snapshot of an engine that is rolling.
\<close>

theorem restoreState_clears_isRolling_witness:
  "isRolling (diceEngine rollingExample) \<and>
   isRolling (restoreState (Some (getState (diceEngine rollingExample))) (diceEngine rollingExample)) = False"
  using restoreState_clears_isRolling [of "getState (diceEngine rollingExample)" "diceEngine rollingExample" rnd5]
  by (simp add: rollingExample_eq)

text \<open>A list without duplicates is the insertion order of the set built from it.\<close>

lemma fold_setAdd_distinct:
  "distinct xs \<Longrightarrow> set xs \<inter> set acc = {} \<Longrightarrow> fold setAdd xs acc = acc @ xs"
  by (induction xs arbitrary: acc) (auto simp: setAdd_def)

lemma newSet_distinct: "distinct xs \<Longrightarrow> newSet xs = xs"
  by (simp add: newSet_def fold_setAdd_distinct)

text \<open>
  Claim C8, as amended. Restoring a snapshot made by \<open>getState\<close> reproduces the values,
  the held flags, the rolls left and the has-rolled flag of the dice engine. Restoring a
  snapshot made by \<open>_autoSave\<close> reproduces the turn score, the roll count, the set-aside
  set, the selection, and the values, held flags and has-rolled flag of the dice; the rolls
  left of the restored game are 0, whatever they were when the snapshot was made. (The two
  sets hold no element twice, as every JavaScript \<open>Set\<close> does.)
\<close>

theorem restore_roundtrip:
  assumes "distinct (setAsideDice g)" and "distinct (selectedDice g)"
  shows "getState (restoreState (Some (getState e)) e') = getState e \<and>
         turnScore (gameRestoreState (autoSave g) g') = turnScore g \<and>
         rollCount (gameRestoreState (autoSave g) g') = rollCount g \<and>
         setAsideDice (gameRestoreState (autoSave g) g') = setAsideDice g \<and>
         selectedDice (gameRestoreState (autoSave g) g') = selectedDice g \<and>
         values_list (diceEngine (gameRestoreState (autoSave g) g')) = values_list (diceEngine g) \<and>
         held (diceEngine (gameRestoreState (autoSave g) g')) = held (diceEngine g) \<and>
         hasRolled (diceEngine (gameRestoreState (autoSave g) g')) = hasRolled (diceEngine g) \<and>
         rollsLeft (diceEngine (gameRestoreState (autoSave g) g')) = 0"
  using assms
  by (simp add: getState_def restoreState_def gameRestoreState_def autoSave_def orElse_def
      newSet_distinct)

text \<open>
  An instance of C8: the third roll of the turn of 5s, saved and restored into a new game.
\<close>

theorem restore_roundtrip_witness:
  "distinct (setAsideDice thirdRollSelection) \<and> distinct (selectedDice thirdRollSelection) \<and>
   setAsideDice (gameRestoreState (autoSave thirdRollSelection) (newFarkleGame ''g'' examplePlayers))
     = [0, 1, 2, 3] \<and>
   selectedDice (gameRestoreState (autoSave thirdRollSelection) (newFarkleGame ''g'' examplePlayers))
     = [4, 5] \<and>
   turnScore (gameRestoreState (autoSave thirdRollSelection) (newFarkleGame ''g'' examplePlayers))
     = 200"
proof -
  have h1: "distinct (setAsideDice thirdRollSelection)"
    and h2: "distinct (selectedDice thirdRollSelection)"
    by (simp_all add: thirdRollSelection_eq)
  from restore_roundtrip [OF h1 h2, of "diceEngine thirdRollSelection"
      "newDiceEngine 6 6 999" "newFarkleGame ''g'' examplePlayers"] h1 h2
  show ?thesis by (simp add: thirdRollSelection_eq)
qed

text \<open>
  Claim C8 as stated includes the rolls left of the dice. The snapshot saved at the start of
  a turn has one roll left; \<open>_restoreState\<close> of the game sets the rolls left to 0 after
  restoring the dice, so the dice state is not the one that was saved.
\<close>

theorem restore_forces_rollsLeft_zero:
  "rollsLeft (diceEngine idleExample) = 1 \<and>
   rollsLeft (diceEngine (gameRestoreState (autoSave idleExample)
                (newFarkleGame ''g'' examplePlayers))) = 0 \<and>
   getState (diceEngine (gameRestoreState (autoSave idleExample)
                (newFarkleGame ''g'' examplePlayers))) \<noteq> getState (diceEngine idleExample)"
  by (simp add: idleExample_def startTurn_def newFarkleGame_def newDiceEngine_def
      gameRestoreState_def autoSave_def restoreState_def getState_def orElse_def)

section \<open>Properties of the bust test and the straight attempt\<close>

subsection \<open>The bust test\<close>

lemma values_countFrequency:
  "set (objectValues (countFrequency ds)) = count_list ds ` set ds"
proof -
  have "set (objectValues (countFrequency ds)) = ran (map_of (countFrequency ds))"
    by (simp add: objectValues_def ran_distinct [OF distinct_countFrequency])
  also have "\<dots> = count_list ds ` set ds"
    by (auto simp: ran_def map_of_countFrequency split: if_splits)
  finally show ?thesis .
qed

lemma isFarkle_spec: "dice \<noteq> [] \<Longrightarrow> isFarkle dice = spec_isFarkle dice"
  by (auto simp: isFarkle_def spec_isFarkle_def Let_def list_ex_iff values_countFrequency
      everyOnce_countFrequency countOf_countFrequency spec_straight_def spec_threePairs_def)

lemma isFarkle_examples:
  "isFarkle [2, 3, 4, 6] = True"
  "isFarkle [2, 3, 4, 5] = False"
  "isFarkle [1, 2, 3, 4, 5, 6] = False"
  by (simp_all add: isFarkle_def scoring_defs)

lemma rollFinished_turnState:
  "turnState (rollFinished g) = (if isFarkle (availableDice g) then Farkle else Selecting)"
  by (simp add: rollFinished_def onRollEnd_def finishRoll_def availableDice_def
      availableIndices_def handleFarkle_def Let_def)

text \<open>
  Claim C4. For every non-empty list of die faces \<open>isFarkle\<close> is true exactly when none of
  these holds: a 1 or a 5 is present, some face occurs three or more times, the list is the
  six-dice straight, the list is six dice in three pairs. When a roll completes, the turn
  machine applies it to the values of the dice that are not set aside, and to nothing else:
  the turn is a bust exactly when \<open>isFarkle\<close> holds of those. The three examples of the
  specification hold.
\<close>

theorem isFarkle_iff_nothing_scores:
  assumes "dice \<noteq> []"
  shows "(isFarkle dice \<longleftrightarrow>
            \<not> (1 \<in> set dice \<or> 5 \<in> set dice \<or> (\<exists>v \<in> set dice. count_list dice v \<ge> 3) \<or>
               (length dice = 6 \<and> list_all (\<lambda>v. count_list dice v = 1) [1, 2, 3, 4, 5, 6]) \<or>
               (length dice = 6 \<and> card {v \<in> set dice. count_list dice v = 2} = 3))) \<and>
         turnState (rollFinished g) = (if isFarkle (availableDice g) then Farkle else Selecting) \<and>
         availableDice g =
           map (valueAt (values_list (diceEngine g)))
             (filter (\<lambda>i. i \<notin> set (setAsideDice g)) [0..<6]) \<and>
         isFarkle [2, 3, 4, 6] = True \<and>
         isFarkle [2, 3, 4, 5] = False \<and>
         isFarkle [1, 2, 3, 4, 5, 6] = False"
proof -
  have a: "isFarkle dice \<longleftrightarrow>
            \<not> (1 \<in> set dice \<or> 5 \<in> set dice \<or> (\<exists>v \<in> set dice. count_list dice v \<ge> 3) \<or>
               (length dice = 6 \<and> list_all (\<lambda>v. count_list dice v = 1) [1, 2, 3, 4, 5, 6]) \<or>
               (length dice = 6 \<and> card {v \<in> set dice. count_list dice v = 2} = 3))"
    unfolding isFarkle_spec [OF assms] spec_isFarkle_def spec_straight_def spec_threePairs_def ..
  have b: "availableDice g =
           map (valueAt (values_list (diceEngine g)))
             (filter (\<lambda>i. i \<notin> set (setAsideDice g)) [0..<6])"
    by (simp add: availableDice_def availableIndices_def)
  show ?thesis
    by (intro conjI a b rollFinished_turnState isFarkle_examples)
qed

text \<open>
  An instance of C4: with the dice showing 1 and 5 set aside, the remaining 2, 3, 4 and 6
  are a bust.
\<close>

theorem isFarkle_iff_nothing_scores_witness:
  "[2, 3, 4, 6 :: nat] \<noteq> [] \<and> isFarkle [2, 3, 4, 6] \<and>
   availableDice farkleExample = [2, 3, 4, 6] \<and>
   turnState (rollFinished farkleExample) = Farkle"
proof -
  have h: "[2, 3, 4, 6 :: nat] \<noteq> []" by simp
  have av: "availableDice farkleExample = [2, 3, 4, 6]"
    by (simp add: farkleExample_def availableDice_def availableIndices_def valueAt_def upt6)
  note T = isFarkle_iff_nothing_scores [OF h, of farkleExample]
  have f: "isFarkle [2, 3, 4, 6]" using T by blast
  have "turnState (rollFinished farkleExample) =
        (if isFarkle (availableDice farkleExample) then Farkle else Selecting)"
    using T by blast
  then have ts: "turnState (rollFinished farkleExample) = Farkle"
    unfolding av using f by simp
  show ?thesis using h f av ts by blast
qed

subsection \<open>The straight attempt\<close>

lemma length_keys_countFrequency: "length (objectKeys (countFrequency ds)) = card (set ds)"
proof -
  have "card (set (map fst (countFrequency ds))) = length (map fst (countFrequency ds))"
    by (rule distinct_card [OF distinct_countFrequency])
  then show ?thesis by (simp add: objectKeys_def keys_countFrequency del: set_map)
qed

lemma one_pair_rest_singles:
  assumes len: "length ds = Suc (card (set ds))"
  shows "\<exists>d \<in> set ds. count_list ds d = 2 \<and> (\<forall>v \<in> set ds. v \<noteq> d \<longrightarrow> count_list ds v = 1)"
proof -
  have pos: "Suc 0 \<le> count_list ds v" if "v \<in> set ds" for v
    using that count_list_0_iff [of ds v] by (cases "count_list ds v") auto
  have total: "sum (count_list ds) (set ds) = length ds"
    by (rule sum_count_set) simp_all
  have "(\<Sum>v \<in> set ds. count_list ds v - Suc 0) =
        sum (count_list ds) (set ds) - (\<Sum>v \<in> set ds. Suc 0)"
    by (rule sum_subtractf_nat) (rule pos)
  also have "\<dots> = Suc 0" using total len by simp
  finally have "(\<Sum>v \<in> set ds. count_list ds v - Suc 0) = Suc 0" .
  then obtain d where d: "d \<in> set ds" "count_list ds d - Suc 0 = Suc 0"
    and rest: "\<forall>b \<in> set ds. d \<noteq> b \<longrightarrow> count_list ds b - Suc 0 = 0"
    using sum_eq_Suc0_iff [of "set ds" "\<lambda>v. count_list ds v - Suc 0"] by auto
  have two: "count_list ds d = 2" using d by simp
  have one: "count_list ds v = 1" if "v \<in> set ds" "v \<noteq> d" for v
  proof -
    have "count_list ds v - Suc 0 = 0" using rest that by auto
    then show ?thesis using pos [OF that(1)] by simp
  qed
  show ?thesis using d(1) two one by blast
qed

lemma keys_in_range:
  "list_all (\<lambda>v. v \<ge> 1 \<and> v \<le> 6) (objectKeys (countFrequency ds)) = (set ds \<subseteq> {1..6})"
proof -
  have "set (objectKeys (countFrequency ds)) = set ds"
    using keys_countFrequency [of ds] by (simp add: objectKeys_def)
  then show ?thesis by (auto simp: list_all_iff)
qed

lemma missing_face:
  assumes sub: "set ds \<subseteq> {1..6}" and c: "card (set ds) = 5"
  shows "\<exists>m. List.find (\<lambda>v. lookup0 (countFrequency ds) v = 0) faces16 = Some m \<and>
             1 \<le> m \<and> m \<le> 6 \<and> m \<notin> set ds \<and>
             (\<forall>m'. 1 \<le> m' \<and> m' \<le> 6 \<and> m' \<notin> set ds \<longrightarrow> m' = m)"
proof -
  have f16: "set faces16 = {1..6}" by (auto simp: faces16_def)
  have "card ({1..6} - set ds) = card {1..6::nat} - card (set ds)"
    using sub by (intro card_Diff_subset) auto
  then have c1: "card ({1..6} - set ds) = 1"
    using c by simp
  then obtain m where m: "{1..6} - set ds = {m}" by (auto simp: card_1_singleton_iff)
  then have min: "m \<in> {1..6}" "m \<notin> set ds" by auto
  have "\<exists>x. x \<in> set faces16 \<and> lookup0 (countFrequency ds) x = 0"
    using min unfolding f16 lookup0_countFrequency count_list_0_iff by blast
  then obtain k where k: "List.find (\<lambda>v. lookup0 (countFrequency ds) v = 0) faces16 = Some k"
    using find_None_iff [of "\<lambda>v. lookup0 (countFrequency ds) v = 0" faces16] by fastforce
  then have "k \<in> set faces16" "lookup0 (countFrequency ds) k = 0"
    by (auto simp: find_Some_iff)
  then have "k \<in> {1..6} - set ds"
    unfolding f16 lookup0_countFrequency count_list_0_iff by blast
  then have km: "k = m" using m by blast
  have uniq: "m' = m" if "1 \<le> m' \<and> m' \<le> 6 \<and> m' \<notin> set ds" for m'
  proof -
    from that have "m' \<in> {1..6} - set ds" by simp
    then show ?thesis using m by blast
  qed
  have rng: "1 \<le> m \<and> m \<le> 6" using min(1) by simp
  show ?thesis using k km min(2) rng uniq by blast
qed

lemma detectStraightAttempt_6:
  assumes "length ds = 6" and "card (set ds) = 5" and "set ds \<subseteq> {1..6}"
    and "list_ex (\<lambda>c. c = 2) (objectValues (countFrequency ds))"
    and "List.find (\<lambda>v. lookup0 (countFrequency ds) v = 0) faces16 = Some m"
  shows "detectStraightAttempt ds = (True, Some m)"
  unfolding detectStraightAttempt_def Let_def length_keys_countFrequency keys_in_range
  using assms by simp

lemma detectStraightAttempt_not6:
  assumes "\<not> (length ds = 6 \<and> card (set ds) = 5 \<and> set ds \<subseteq> {1..6})"
  shows "detectStraightAttempt ds = (False, None)"
  unfolding detectStraightAttempt_def Let_def length_keys_countFrequency keys_in_range
  using assms by auto

lemma detectStraightAttempt_possible:
  assumes "spec_straightAttempt ds"
  shows "\<exists>m. detectStraightAttempt ds = (True, Some m) \<and> 1 \<le> m \<and> m \<le> 6 \<and> m \<notin> set ds \<and>
             (\<forall>m'. 1 \<le> m' \<and> m' \<le> 6 \<and> m' \<notin> set ds \<longrightarrow> m' = m)"
proof -
  from assms have len: "length ds = 6" and c: "card (set ds) = 5" and sub: "set ds \<subseteq> {1..6}"
    and dup: "\<exists>d \<in> set ds. count_list ds d = 2"
    unfolding spec_straightAttempt_def by blast+
  have hasDup: "list_ex (\<lambda>c. c = 2) (objectValues (countFrequency ds))"
    using dup unfolding list_ex_iff values_countFrequency by blast
  from missing_face [OF sub c] obtain m
    where m: "List.find (\<lambda>v. lookup0 (countFrequency ds) v = 0) faces16 = Some m"
      and rest: "1 \<le> m \<and> m \<le> 6 \<and> m \<notin> set ds \<and>
                 (\<forall>m'. 1 \<le> m' \<and> m' \<le> 6 \<and> m' \<notin> set ds \<longrightarrow> m' = m)"
    by blast
  have "detectStraightAttempt ds = (True, Some m)"
    by (rule detectStraightAttempt_6 [OF len c sub hasDup m])
  then show ?thesis using rest by blast
qed

lemma detectStraightAttempt_impossible:
  assumes "\<not> spec_straightAttempt ds"
  shows "detectStraightAttempt ds = (False, None)"
proof (cases "length ds = 6 \<and> card (set ds) = 5 \<and> set ds \<subseteq> {1..6}")
  case True
  then have "length ds = Suc (card (set ds))" by simp
  from one_pair_rest_singles [OF this] True have "spec_straightAttempt ds"
    unfolding spec_straightAttempt_def by blast
  with assms show ?thesis by simp
next
  case False
  then show ?thesis by (rule detectStraightAttempt_not6)
qed

lemma detectStraightAttempt_examples:
  "detectStraightAttempt [1, 2, 3, 4, 5, 5] = (True, Some 6)"
  "detectStraightAttempt [1, 1, 2, 3, 4, 5] = (True, Some 6)"
  "detectStraightAttempt [1, 1, 1, 2, 3, 4] = (False, None)"
  by (simp_all add: detectStraightAttempt_def scoring_defs)

text \<open>
  Claim C5. \<open>detectStraightAttempt\<close> answers \<open>possible = true\<close> exactly for six dice
  that show five distinct faces, all from 1 to 6, with one face twice and the others once;
  the missing value it returns is then the one face from 1 to 6 that no die shows. In every
  other case, and for any list whose length is not 6, it answers \<open>possible = false\<close> with
  \<open>missingValue = null\<close>. The three examples of the specification hold.
\<close>

theorem detectStraightAttempt_iff:
  "(fst (detectStraightAttempt dice) \<longleftrightarrow>
      length dice = 6 \<and> card (set dice) = 5 \<and> set dice \<subseteq> {1..6} \<and>
      (\<exists>d \<in> set dice. count_list dice d = 2 \<and>
         (\<forall>v \<in> set dice. v \<noteq> d \<longrightarrow> count_list dice v = 1))) \<and>
   (fst (detectStraightAttempt dice) \<longrightarrow>
      (\<exists>m. snd (detectStraightAttempt dice) = Some m \<and> 1 \<le> m \<and> m \<le> 6 \<and> m \<notin> set dice \<and>
           (\<forall>m'. 1 \<le> m' \<and> m' \<le> 6 \<and> m' \<notin> set dice \<longrightarrow> m' = m))) \<and>
   (\<not> fst (detectStraightAttempt dice) \<longrightarrow> detectStraightAttempt dice = (False, None)) \<and>
   (length dice \<noteq> 6 \<longrightarrow> detectStraightAttempt dice = (False, None)) \<and>
   detectStraightAttempt [1, 2, 3, 4, 5, 5] = (True, Some 6) \<and>
   detectStraightAttempt [1, 1, 2, 3, 4, 5] = (True, Some 6) \<and>
   detectStraightAttempt [1, 1, 1, 2, 3, 4] = (False, None)"
proof -
  have iff: "fst (detectStraightAttempt dice) \<longleftrightarrow> spec_straightAttempt dice"
  proof (cases "spec_straightAttempt dice")
    case True
    from detectStraightAttempt_possible [OF True] obtain m
      where "detectStraightAttempt dice = (True, Some m)" by blast
    then have "fst (detectStraightAttempt dice)" by simp
    then show ?thesis using True by simp
  next
    case False
    have "detectStraightAttempt dice = (False, None)"
      by (rule detectStraightAttempt_impossible [OF False])
    then have "\<not> fst (detectStraightAttempt dice)" by simp
    then show ?thesis using False by simp
  qed
  have c1: "fst (detectStraightAttempt dice) \<longleftrightarrow>
      length dice = 6 \<and> card (set dice) = 5 \<and> set dice \<subseteq> {1..6} \<and>
      (\<exists>d \<in> set dice. count_list dice d = 2 \<and>
         (\<forall>v \<in> set dice. v \<noteq> d \<longrightarrow> count_list dice v = 1))"
    using iff unfolding spec_straightAttempt_def .
  have c2: "fst (detectStraightAttempt dice) \<longrightarrow>
      (\<exists>m. snd (detectStraightAttempt dice) = Some m \<and> 1 \<le> m \<and> m \<le> 6 \<and> m \<notin> set dice \<and>
           (\<forall>m'. 1 \<le> m' \<and> m' \<le> 6 \<and> m' \<notin> set dice \<longrightarrow> m' = m))"
  proof
    assume "fst (detectStraightAttempt dice)"
    then have "spec_straightAttempt dice" using iff by simp
    from detectStraightAttempt_possible [OF this] obtain m
      where "detectStraightAttempt dice = (True, Some m)"
        and r: "1 \<le> m \<and> m \<le> 6 \<and> m \<notin> set dice \<and>
           (\<forall>m'. 1 \<le> m' \<and> m' \<le> 6 \<and> m' \<notin> set dice \<longrightarrow> m' = m)"
      by blast
    then have "snd (detectStraightAttempt dice) = Some m" by simp
    then show "\<exists>m. snd (detectStraightAttempt dice) = Some m \<and> 1 \<le> m \<and> m \<le> 6 \<and> m \<notin> set dice \<and>
           (\<forall>m'. 1 \<le> m' \<and> m' \<le> 6 \<and> m' \<notin> set dice \<longrightarrow> m' = m)"
      using r by blast
  qed
  have c3: "\<not> fst (detectStraightAttempt dice) \<longrightarrow> detectStraightAttempt dice = (False, None)"
  proof
    assume "\<not> fst (detectStraightAttempt dice)"
    then have "\<not> spec_straightAttempt dice" using iff by simp
    then show "detectStraightAttempt dice = (False, None)"
      by (rule detectStraightAttempt_impossible)
  qed
  have c4: "length dice \<noteq> 6 \<longrightarrow> detectStraightAttempt dice = (False, None)"
  proof
    assume "length dice \<noteq> 6"
    then have "\<not> (length dice = 6 \<and> card (set dice) = 5 \<and> set dice \<subseteq> {1..6})" by simp
    then show "detectStraightAttempt dice = (False, None)"
      by (rule detectStraightAttempt_not6)
  qed
  show ?thesis
    by (intro conjI c1 c2 c3 c4 detectStraightAttempt_examples)
qed

text \<open>
  Instances of C5: one pair and four singles with 1 missing, two pairs, and three dice.
\<close>

theorem detectStraightAttempt_iff_witness:
  "fst (detectStraightAttempt [2, 3, 3, 4, 5, 6]) \<and>
   snd (detectStraightAttempt [2, 3, 3, 4, 5, 6]) = Some 1 \<and>
   length [2, 3, 3, 4, 5, 6 :: nat] = 6 \<and> card (set [2, 3, 3, 4, 5, 6 :: nat]) = 5 \<and>
   \<not> fst (detectStraightAttempt [2, 2, 3, 3, 5, 6]) \<and>
   detectStraightAttempt [2, 2, 3, 3, 5, 6] = (False, None) \<and>
   length [1, 2, 3 :: nat] \<noteq> 6 \<and> detectStraightAttempt [1, 2, 3] = (False, None)"
proof -
  have a: "detectStraightAttempt [2, 3, 3, 4, 5, 6] = (True, Some 1)"
    by (simp add: detectStraightAttempt_def scoring_defs)
  have b: "\<not> fst (detectStraightAttempt [2, 2, 3, 3, 5, 6])"
    by (simp add: detectStraightAttempt_def scoring_defs)
  have a0: "fst (detectStraightAttempt [2, 3, 3, 4, 5, 6])" using a by simp
  have a2: "snd (detectStraightAttempt [2, 3, 3, 4, 5, 6]) = Some 1" using a by simp
  note A = detectStraightAttempt_iff [of "[2, 3, 3, 4, 5, 6]", THEN conjunct1, THEN iffD1, OF a0]
  note B = detectStraightAttempt_iff [of "[2, 2, 3, 3, 5, 6]", THEN conjunct2, THEN conjunct2,
      THEN conjunct1, THEN mp, OF b]
  have c0: "length [1, 2, 3 :: nat] \<noteq> 6" by simp
  note C = detectStraightAttempt_iff [of "[1, 2, 3]", THEN conjunct2, THEN conjunct2,
      THEN conjunct2, THEN conjunct1, THEN mp, OF c0]
  have a1: "length [2, 3, 3, 4, 5, 6 :: nat] = 6" and a3: "card (set [2, 3, 3, 4, 5, 6 :: nat]) = 5"
    using A by (rule conjunct1, rule conjunct2 [THEN conjunct1])
  show ?thesis
    by (intro conjI a0 a2 a1 a3 b B c0 C)
qed

section \<open>Properties of the match controller\<close>

subsection \<open>Seats counted from the trigger player\<close>

lemma seat_inj_le:
  assumes "a \<le> b" "b < n" "(t + a) mod n = (t + b) mod n"
  shows "a = (b::nat)"
proof -
  have "t + a \<le> t + b" using assms(1) by simp
  then have "n dvd (t + b) - (t + a)"
    using assms(3) mod_eq_dvd_iff_nat [of "t + a" "t + b" n] by simp
  then have "n dvd b - a" by simp
  moreover have "b - a < n" using assms(2) by simp
  ultimately have "b - a = 0" using nat_dvd_not_less by blast
  then show ?thesis using assms(1) by simp
qed

lemma seatAfter_inj:
  assumes "a < n" "b < n" "seatAfter n t a = seatAfter n t b"
  shows "a = b"
proof (cases "a \<le> b")
  case True
  then show ?thesis using seat_inj_le [of a b n t] assms by (simp add: seatAfter_def)
next
  case False
  then have "b \<le> a" by simp
  then show ?thesis using seat_inj_le [of b a n t] assms by (simp add: seatAfter_def)
qed

lemma seatAfter_lt: "0 < n \<Longrightarrow> seatAfter n t k < n"
  by (simp add: seatAfter_def)

lemma seatAfter_0: "t < n \<Longrightarrow> seatAfter n t 0 = t"
  by (simp add: seatAfter_def)

lemma seatAfter_Suc: "0 < n \<Longrightarrow> (seatAfter n t k + 1) mod n = seatAfter n t (Suc k)"
  by (simp add: seatAfter_def mod_Suc_eq)

lemma seatAfter_surj:
  assumes "t < n" "i < n"
  shows "\<exists>j < n. seatAfter n t j = i"
proof -
  let ?j = "(i + n - t) mod n"
  have "?j < n" using assms by simp
  moreover have "seatAfter n t ?j = i"
  proof -
    have "(t + (i + n - t) mod n) mod n = (t + (i + n - t)) mod n"
      by (simp add: mod_add_right_eq)
    also have "\<dots> = (i + n) mod n" using assms by simp
    also have "\<dots> = i" using assms by simp
    finally show ?thesis by (simp add: seatAfter_def)
  qed
  ultimately show ?thesis by blast
qed

lemma seats_cover_iff:
  assumes t: "t < n" and K: "K < n"
  shows "(\<forall>i < n. i = t \<or> i \<in> seatAfter n t ` {0..K}) \<longleftrightarrow> K = n - 1"
proof
  assume all: "\<forall>i < n. i = t \<or> i \<in> seatAfter n t ` {0..K}"
  show "K = n - 1"
  proof (rule ccontr)
    assume "K \<noteq> n - 1"
    then have K1: "Suc K < n" using K by simp
    let ?i = "seatAfter n t (Suc K)"
    have "?i < n" using t by (simp add: seatAfter_lt)
    moreover have "?i \<noteq> t"
    proof
      assume "?i = t"
      then have "seatAfter n t (Suc K) = seatAfter n t 0" using t by (simp add: seatAfter_0)
      from seatAfter_inj [OF K1 _ this] t show False by simp
    qed
    moreover have "?i \<notin> seatAfter n t ` {0..K}"
    proof
      assume "?i \<in> seatAfter n t ` {0..K}"
      then obtain j where j: "j \<le> K" "seatAfter n t (Suc K) = seatAfter n t j" by auto
      from seatAfter_inj [OF K1 _ j(2)] j(1) K show False by simp
    qed
    ultimately show False using all by blast
  qed
next
  assume K: "K = n - 1"
  show "\<forall>i < n. i = t \<or> i \<in> seatAfter n t ` {0..K}"
  proof (intro allI impI)
    fix i assume "i < n"
    from seatAfter_surj [OF t this] obtain j where "j < n" "seatAfter n t j = i" by blast
    then have "i \<in> seatAfter n t ` {0..K}" using K by auto
    then show "i = t \<or> i \<in> seatAfter n t ` {0..K}" by simp
  qed
qed

lemma allDone_iff:
  "allDone g \<longleftrightarrow>
     (\<forall>i < length (players g). int i = finalRoundTriggerPlayer g \<or> i \<in> set (playersHadFinalTurn g))"
  by (auto simp: allDone_def list_all_iff)

subsection \<open>The winners\<close>

lemma fold_winnerStep:
  "fold winnerStep xs (-1, []) =
     (if xs = [] then (-1, [])
      else (int (Max (totalScore ` set xs)),
            filter (\<lambda>p. totalScore p = Max (totalScore ` set xs)) xs))"
proof (induction xs rule: rev_induct)
  case Nil
  show ?case by simp
next
  case (snoc x xs)
  show ?case
  proof (cases "xs = []")
    case True
    then show ?thesis by (simp add: winnerStep_def)
  next
    case False
    let ?m = "Max (totalScore ` set xs)"
    have fin: "finite (totalScore ` set xs)" and ne: "totalScore ` set xs \<noteq> {}"
      using False by simp_all
    have le: "totalScore q \<le> ?m" if "q \<in> set xs" for q
      using that fin by (simp add: Max_ge)
    have max': "Max (totalScore ` set (xs @ [x])) = max (totalScore x) ?m"
      using fin ne by simp
    have st: "fold winnerStep xs (-1, []) = (int ?m, filter (\<lambda>p. totalScore p = ?m) xs)"
      using snoc.IH False by simp
    have step: "fold winnerStep (xs @ [x]) (-1, []) =
                winnerStep x (int ?m, filter (\<lambda>p. totalScore p = ?m) xs)"
      by (simp add: st)
    have goal: "(if xs @ [x] = [] then (-1, [])
                 else (int (Max (totalScore ` set (xs @ [x]))),
                       filter (\<lambda>p. totalScore p = Max (totalScore ` set (xs @ [x]))) (xs @ [x]))) =
                (int (max (totalScore x) ?m),
                 filter (\<lambda>p. totalScore p = max (totalScore x) ?m) (xs @ [x]))"
      unfolding max' by simp
    have "winnerStep x (int ?m, filter (\<lambda>p. totalScore p = ?m) xs) =
          (int (max (totalScore x) ?m),
           filter (\<lambda>p. totalScore p = max (totalScore x) ?m) (xs @ [x]))"
    proof -
      consider "totalScore x > ?m" | "totalScore x = ?m" | "totalScore x < ?m" by linarith
      then show ?thesis
      proof cases
        case 1
        have "totalScore q \<noteq> totalScore x" if "q \<in> set xs" for q
          using le [OF that] 1 by simp
        then have none: "filter (\<lambda>p. totalScore p = totalScore x) xs = []"
          by (simp add: filter_empty_conv)
        show ?thesis using 1 by (simp add: winnerStep_def max_def none)
      next
        case 2
        then show ?thesis by (simp add: winnerStep_def)
      next
        case 3
        then show ?thesis by (simp add: winnerStep_def max_def)
      qed
    qed
    then show ?thesis unfolding step goal .
  qed
qed

lemma topScorers_Max:
  "xs \<noteq> [] \<Longrightarrow> topScorers xs = filter (\<lambda>p. totalScore p = Max (totalScore ` set xs)) xs"
proof -
  assume ne: "xs \<noteq> []"
  have "(\<forall>q \<in> set xs. totalScore q \<le> totalScore p) \<longleftrightarrow> totalScore p = Max (totalScore ` set xs)"
    if "p \<in> set xs" for p
  proof
    assume "\<forall>q \<in> set xs. totalScore q \<le> totalScore p"
    then show "totalScore p = Max (totalScore ` set xs)"
      using that by (intro Max_eqI [symmetric]) auto
  next
    assume "totalScore p = Max (totalScore ` set xs)"
    then show "\<forall>q \<in> set xs. totalScore q \<le> totalScore p" by simp
  qed
  then show ?thesis unfolding topScorers_def by (intro filter_cong) auto
qed

lemma winners_topScorers: "snd (fold winnerStep xs (-1, [])) = topScorers xs"
proof (cases "xs = []")
  case True
  then show ?thesis by (simp add: topScorers_def)
next
  case False
  then show ?thesis by (simp add: fold_winnerStep topScorers_Max [OF False])
qed

lemma endGame_result: "matchResult (endGame g) = Some (topScorers (players g))"
  by (simp add: endGame_def winners_topScorers)

subsection \<open>The final round\<close>

lemma nextPlayer_final:
  assumes inv: "finalRoundInv t n k g" and t: "t < n" and k: "k < n"
  shows "players (nextPlayer g) = players g \<and> finalRound (nextPlayer g) \<and>
         finalRoundTriggerPlayer (nextPlayer g) = int t \<and>
         (if k = n - 1 then matchResult (nextPlayer g) = Some (topScorers (players g))
          else finalRoundInv t n (Suc k) (nextPlayer g))"
proof -
  from inv have fr: "finalRound g" and trig: "finalRoundTriggerPlayer g = int t"
    and len: "length (players g) = n" and mr: "matchResult g = None"
    and cur: "currentPlayerIndex g = seatAfter n t k"
    and had: "set (playersHadFinalTurn g) = seatAfter n t ` {..<k}"
    by (simp_all add: finalRoundInv_def)
  let ?g1 = "g\<lparr>playersHadFinalTurn := setAdd (currentPlayerIndex g) (playersHadFinalTurn g)\<rparr>"
  have had1: "set (playersHadFinalTurn ?g1) = seatAfter n t ` {0..k}"
    by (auto simp: setAdd_def had cur atLeast0AtMost lessThan_Suc_atMost [symmetric] lessThan_Suc)
  have had1': "set (playersHadFinalTurn ?g1) = seatAfter n t ` {..<Suc k}"
    unfolding had1 by (simp add: atLeast0AtMost lessThan_Suc_atMost)
  have alld: "allDone ?g1 \<longleftrightarrow> k = n - 1"
    unfolding allDone_iff had1 using seats_cover_iff [OF t k] by (simp add: len trig)
  show ?thesis
  proof (cases "k = n - 1")
    case True
    then have "nextPlayer g = endGame ?g1"
      using fr alld by (simp add: nextPlayer_def Let_def)
    then show ?thesis
      using True fr trig by (simp add: endGame_result) (simp add: endGame_def)
  next
    case False
    then have k2: "Suc k < n" using k by simp
    have n0: "0 < n" using t by simp
    have cur2: "(currentPlayerIndex g + 1) mod n = seatAfter n t (Suc k)"
      using seatAfter_Suc [OF n0, of t k] by (simp add: cur)
    have nt: "seatAfter n t (Suc k) \<noteq> t"
    proof
      assume "seatAfter n t (Suc k) = t"
      then have "seatAfter n t (Suc k) = seatAfter n t 0" using t by (simp add: seatAfter_0)
      from seatAfter_inj [OF k2 _ this] n0 show False by simp
    qed
    have "nextPlayer g = startTurn (?g1\<lparr>currentPlayerIndex := seatAfter n t (Suc k)\<rparr>)"
      using fr alld False nt cur2 by (simp add: nextPlayer_def Let_def len trig)
    then show ?thesis
      using False fr trig len mr had1'
      by (simp add: finalRoundInv_def startTurn_def)
  qed
qed

lemma bank_triggers:
  assumes c: "turnState g = Confirmed" and nf: "\<not> finalRound g"
    and t: "currentPlayerIndex g < length (players g)"
    and mr: "matchResult g = None" and had: "playersHadFinalTurn g = []"
    and tgt: "totalScore (players g ! currentPlayerIndex g) + turnScore g \<ge> TARGET_SCORE"
  shows "finalRound (bank g) \<and> finalRoundTriggerPlayer (bank g) = int (currentPlayerIndex g) \<and>
         (if length (players g) = 1
          then matchResult (bank g) = Some (topScorers (players (bank g)))
          else finalRoundInv (currentPlayerIndex g) (length (players g)) 1 (bank g))"
proof -
  let ?i = "currentPlayerIndex g" and ?n = "length (players g)"
  let ?p = "(players g ! ?i)\<lparr>totalScore := totalScore (players g ! ?i) + turnScore g\<rparr>"
  let ?g2 = "g\<lparr>players := (players g)[?i := ?p], finalRound := True,
               finalRoundTriggerPlayer := int ?i\<rparr>"
  have e: "bank g = nextPlayer ?g2"
    using c nf t tgt by (simp add: bank_def Let_def)
  have inv2: "finalRoundInv ?i ?n 0 ?g2"
    using t mr had by (simp add: finalRoundInv_def seatAfter_0)
  have n0: "0 < ?n" using t by (cases "players g") simp_all
  have "(0 = ?n - 1) = (?n = 1)" using n0 by arith
  with nextPlayer_final [OF inv2 t n0] show ?thesis
    unfolding e by (auto split: if_splits)
qed

text \<open>
  The lemmas above are about a final round in which every turn ends with one call of
  \<open>_nextPlayer\<close>. A roll of \<open>_attemptStraight\<close> ends with two listeners of
  \<open>roll-end\<close>: when the die that was rolled again scores nothing alone and does not show
  the missing value, both call \<open>_handleFarkle\<close> and two timers are set.
\<close>

lemma failed_straight_two_timers:
  assumes "isFarkle (availableDice g)"
    and "valueOpt (values_list (diceEngine g)) (keptDupIdx h) \<noteq> missingVal h"
  shows "timers (straightRollFinished h g) = timers g @ [NextPlayerTimer, NextPlayerTimer]"
  using assms
  by (simp add: straightRollFinished_def straightHandler_def rollFinished_def finishRoll_def
      onRollEnd_def handleFarkle_def availableDice_def availableIndices_def valueAt_def Let_def)

lemma triggerTurnExample_eq:
  "triggerTurnExample =
     \<lparr>gameId = ''g'',
      players = [\<lparr>player_id = 0, name = ''A'', color = ''red'', totalScore = 10300\<rparr>,
                 \<lparr>player_id = 1, name = ''B'', color = ''blue'', totalScore = 9000\<rparr>,
                 \<lparr>player_id = 2, name = ''C'', color = ''green'', totalScore = 9500\<rparr>],
      currentPlayerIndex = 1, turnScore = 0, rollCount = 0, setAsideDice = [],
      selectedDice = [], turnState = Idle, straightAttemptData = None, finalRound = True,
      finalRoundTriggerPlayer = 0, playersHadFinalTurn = [0],
      diceEngine = \<lparr>values_list = [1, 1, 1, 1, 1, 1],
                      held = [False, False, False, False, False, False], rollsLeft = 1,
                      hasRolled = False, count = 6, sides = 6, maxRolls = 999, isRolling = False\<rparr>,
      matchResult = None, timers = []\<rparr>"
  by (simp add: triggerTurnExample_def threePlayers_def game_defs scoring_defs rnd5_def replicate6
      list_update_Cons_numeral upt6 Let_def bank_def nextPlayer_def allDone_def TARGET_SCORE_def)

lemma straightOfferedExample_eq:
  "straightOfferedExample =
     \<lparr>gameId = ''g'',
      players = [\<lparr>player_id = 0, name = ''A'', color = ''red'', totalScore = 10300\<rparr>,
                 \<lparr>player_id = 1, name = ''B'', color = ''blue'', totalScore = 9000\<rparr>,
                 \<lparr>player_id = 2, name = ''C'', color = ''green'', totalScore = 9500\<rparr>],
      currentPlayerIndex = 1, turnScore = 0, rollCount = 1, setAsideDice = [],
      selectedDice = [], turnState = Selecting, straightAttemptData = Some (True, Some 6),
      finalRound = True, finalRoundTriggerPlayer = 0, playersHadFinalTurn = [0],
      diceEngine = \<lparr>values_list = [1, 2, 3, 4, 5, 5],
                      held = [False, False, False, False, False, False], rollsLeft = 0,
                      hasRolled = True, count = 6, sides = 6, maxRolls = 999, isRolling = False\<rparr>,
      matchResult = None, timers = []\<rparr>"
  by (simp add: straightOfferedExample_def triggerTurnExample_eq game_defs scoring_defs rndPair_def
      replicate6 list_update_Cons_numeral upt6 Let_def)

lemma attemptStraight_example:
  "attemptStraight rndTwo straightOfferedExample =
    (\<lparr>gameId = ''g'',
      players = [\<lparr>player_id = 0, name = ''A'', color = ''red'', totalScore = 10300\<rparr>,
                 \<lparr>player_id = 1, name = ''B'', color = ''blue'', totalScore = 9000\<rparr>,
                 \<lparr>player_id = 2, name = ''C'', color = ''green'', totalScore = 9500\<rparr>],
      currentPlayerIndex = 1, turnScore = 0, rollCount = 2, setAsideDice = [0, 1, 2, 3, 5],
      selectedDice = [], turnState = StraightAttempt, straightAttemptData = Some (True, Some 6),
      finalRound = True, finalRoundTriggerPlayer = 0, playersHadFinalTurn = [0],
      diceEngine = \<lparr>values_list = [1, 2, 3, 4, 2, 5],
                      held = [True, True, True, True, False, True], rollsLeft = 0,
                      hasRolled = True, count = 6, sides = 6, maxRolls = 999, isRolling = True\<rparr>,
      matchResult = None, timers = []\<rparr>,
     Some \<lparr>keptDupIdx = 4, missingVal = Some 6\<rparr>)"
  by (simp add: straightOfferedExample_eq attemptStraight_def keepStep_def valueOpt_def getValues_def
      game_defs scoring_defs rndTwo_def replicate6 list_update_Cons_numeral upt6 Let_def)

lemma failedStraightExample_eq:
  "failedStraightExample =
     \<lparr>gameId = ''g'',
      players = [\<lparr>player_id = 0, name = ''A'', color = ''red'', totalScore = 10300\<rparr>,
                 \<lparr>player_id = 1, name = ''B'', color = ''blue'', totalScore = 9000\<rparr>,
                 \<lparr>player_id = 2, name = ''C'', color = ''green'', totalScore = 9500\<rparr>],
      currentPlayerIndex = 1, turnScore = 0, rollCount = 2, setAsideDice = [0, 1, 2, 3, 5],
      selectedDice = [], turnState = Farkle, straightAttemptData = None,
      finalRound = True, finalRoundTriggerPlayer = 0, playersHadFinalTurn = [0],
      diceEngine = \<lparr>values_list = [1, 2, 3, 4, 2, 5],
                      held = [True, True, True, True, False, True], rollsLeft = 0,
                      hasRolled = True, count = 6, sides = 6, maxRolls = 999, isRolling = False\<rparr>,
      matchResult = None, timers = [NextPlayerTimer, NextPlayerTimer]\<rparr>"
  by (simp add: failedStraightExample_def straightAttemptRoll_def attemptStraight_example
      straightRollFinished_def straightHandler_def valueOpt_def game_defs scoring_defs Let_def upt6)

text \<open>
  Claim C6 does not hold of the code. Three players; the first banks and reaches 10300, which
  starts the final round. The second rolls 1, 2, 3, 4, 5, 5 and tries the straight; the die
  rolled again shows 2. The turn is a bust and two timers are pending, each of which calls
  \<open>_nextPlayer\<close>. The first puts the third player on turn; the second ends that turn
  before any roll (\<open>rollCount\<close> is 0), marks the third player as having had the final
  turn and ends the match with the first player as the winner. The third player, who is
  not the trigger player, has had no turn.
\<close>

theorem failed_straight_skips_final_turn:
  "finalRound straightOfferedExample \<and> finalRoundTriggerPlayer straightOfferedExample = 0 \<and>
   currentPlayerIndex straightOfferedExample = 1 \<and>
   playersHadFinalTurn straightOfferedExample = [0] \<and>
   turnState straightOfferedExample = Selecting \<and>
   values_list (diceEngine straightOfferedExample) = [1, 2, 3, 4, 5, 5] \<and>
   straightAttemptData straightOfferedExample = Some (True, Some 6) \<and>
   values_list (diceEngine failedStraightExample) = [1, 2, 3, 4, 2, 5] \<and>
   turnState failedStraightExample = Farkle \<and>
   currentPlayerIndex failedStraightExample = 1 \<and>
   timers failedStraightExample = [NextPlayerTimer, NextPlayerTimer] \<and>
   currentPlayerIndex (fireTimer 0 failedStraightExample) = 2 \<and>
   turnState (fireTimer 0 failedStraightExample) = Idle \<and>
   rollCount (fireTimer 0 failedStraightExample) = 0 \<and>
   matchResult (fireTimer 0 failedStraightExample) = None \<and>
   timers (fireTimer 0 failedStraightExample) = [NextPlayerTimer] \<and>
   currentPlayerIndex (fireTimer 0 (fireTimer 0 failedStraightExample)) = 2 \<and>
   turnState (fireTimer 0 (fireTimer 0 failedStraightExample)) = Idle \<and>
   rollCount (fireTimer 0 (fireTimer 0 failedStraightExample)) = 0 \<and>
   playersHadFinalTurn (fireTimer 0 (fireTimer 0 failedStraightExample)) = [0, 1, 2] \<and>
   map_option (map name) (matchResult (fireTimer 0 (fireTimer 0 failedStraightExample))) = Some [''A'']"
  by (simp add: straightOfferedExample_eq failedStraightExample_eq fireTimer_def farkleTimeout_def
      nextPlayer_def allDone_def startTurn_def endGame_def winnerStep_def newDiceEngine_def
      setAdd_def replicate6 Let_def)

section \<open>Properties of the Yahtzee controller\<close>

lemmas yahtzee_defs = newYahtzeeGame_def newDiceEngine_def yahtzeeRollFinished_def
  yahtzeeRollDice_def canRoll_def roll_def finishRoll_def reset_def heldAt_def
  selectCategory_def yahtzeeNextPlayer_def isPlayerFinished_def categories_def getValues_def
  yahtzeeCheck_def countDice_def calculateTotal_def calculateUpperSum_def orElse_def
  yahtzeeEndGame_def

lemma replicate5: "replicate 5 x = [x, x, x, x, x]"
  by (simp add: numeral_eq_Suc)

lemma upt5: "[0..<5] = [0, 1, 2, 3, 4]"
  by (simp add: upt_rec)

lemma firstYahtzeeRoll_eq:
  "firstYahtzeeRoll =
     Some \<lparr>y_players = [\<lparr>yp_id = 0, yp_name = ''A'', yp_color = ''red'', scores = Map.empty,
                          yahtzees = 0\<rparr>],
           y_currentPlayerIndex = 0,
           y_diceEngine = \<lparr>values_list = [6, 6, 6, 6, 6],
                           held = [False, False, False, False, False], rollsLeft = 2,
                           hasRolled = True, count = 5, sides = 6, maxRolls = 3, isRolling = False\<rparr>,
           y_matchResult = None\<rparr>"
  by (simp add: firstYahtzeeRoll_def yahtzeeStartTurn.simps yahtzee_defs rnd6_def replicate5 upt5
      list_update_Cons_numeral Let_def)

lemma secondYahtzeeRoll_eq:
  "secondYahtzeeRoll =
     Some \<lparr>y_players = [\<lparr>yp_id = 0, yp_name = ''A'', yp_color = ''red'',
                          scores = [''yahtzee'' \<mapsto> 50], yahtzees = 1\<rparr>],
           y_currentPlayerIndex = 0,
           y_diceEngine = \<lparr>values_list = [6, 6, 6, 6, 6],
                           held = [False, False, False, False, False], rollsLeft = 2,
                           hasRolled = True, count = 5, sides = 6, maxRolls = 3, isRolling = False\<rparr>,
           y_matchResult = None\<rparr>"
  by (simp add: secondYahtzeeRoll_def firstYahtzeeRoll_eq yahtzeeStartTurn.simps yahtzee_defs
      rnd6_def replicate5 upt5 list_update_Cons_numeral Let_def)

text \<open>A filled Yahtzee box cannot be chosen again, whatever the dice show.\<close>

lemma yahtzee_box_filled_is_noop:
  "scores (y_players g ! y_currentPlayerIndex g) ''yahtzee'' \<noteq> None \<Longrightarrow>
   selectCategory ''yahtzee'' g = Some g"
  by (simp add: selectCategory_def categories_def Let_def)

text \<open>
  Claim C9 says that a second Yahtzee by a player who has already scored one adds 100
  points to that player's total. The rules shown by the game say the same, and both
  \<open>_selectCategory\<close> and \<open>calculateTotal\<close> have a branch for it, but the Yahtzee box can
  be filled only once, so the branch is never taken. Here the only player has scored a
  Yahtzee of 6s (50 points, counter 1) and rolls five 6s again: choosing the Yahtzee box
  again changes nothing and the total stays 50; choosing the sixes scores 30, the total is
  80 and the counter stays 1.
\<close>

theorem second_yahtzee_scores_no_bonus:
  "map_option sheetOf secondYahtzeeRoll = Some (1, Some 50, None, [6, 6, 6, 6, 6], 50) \<and>
   Option.bind secondYahtzeeRoll (selectCategory ''yahtzee'') = secondYahtzeeRoll \<and>
   map_option sheetOf (Option.bind secondYahtzeeRoll (selectCategory ''sixes'')) =
     Some (1, Some 50, Some 30, [1, 1, 1, 1, 1], 80)"
  by (simp add: secondYahtzeeRoll_eq sheetOf_def yahtzeeStartTurn.simps yahtzee_defs replicate5
      Let_def)

end
